theory Spec2Isabelle
  imports Main "HOL-Library.AList" "HOL-Library.Char_ord" "HOL-Library.List_Lexorder"
begin

section \<open>Python strings\<close>

text \<open>
  A Python string is a \<^typ>\<open>string\<close>. The functions below are the string methods that
  \<^verbatim>\<open>jirafs/ticketfolder.py\<close> calls: \<^verbatim>\<open>strip\<close>, \<^verbatim>\<open>replace('\r\n', '\n')\<close>,
  \<^verbatim>\<open>split('\n')\<close>, \<^verbatim>\<open>startswith\<close>, \<^verbatim>\<open>readlines\<close> of a text file, \<^verbatim>\<open>str\<close> of an integer
  and \<^verbatim>\<open>zfill\<close>.
\<close>

definition LF :: char where
  "LF = CHR 0x0A"

definition CR :: char where
  "CR = CHR 0x0D"

text \<open>The characters below 128 that \<^verbatim>\<open>str.isspace\<close> accepts; \<^verbatim>\<open>strip()\<close> removes them.\<close>

definition is_space :: "char \<Rightarrow> bool" where
  "is_space c = (c \<in> set [CHR 0x09, CHR 0x0A, CHR 0x0B, CHR 0x0C, CHR 0x0D,
                            CHR 0x1C, CHR 0x1D, CHR 0x1E, CHR 0x1F, CHR 0x20])"

definition strip :: "string \<Rightarrow> string" where
  "strip s = rev (dropWhile is_space (rev (dropWhile is_space s)))"

fun replace_crlf :: "string \<Rightarrow> string" where
  "replace_crlf (a # b # cs) =
     (if a = CR \<and> b = LF then LF # replace_crlf cs else a # replace_crlf (b # cs))"
| "replace_crlf cs = cs"

fun split_on :: "char \<Rightarrow> string \<Rightarrow> string list" where
  "split_on d [] = [[]]"
| "split_on d (c # cs) =
     (if c = d then [] # split_on d cs
      else (case split_on d cs of [] \<Rightarrow> [[c]] | x # xs \<Rightarrow> (c # x) # xs))"

definition startswith :: "string \<Rightarrow> string \<Rightarrow> bool" where
  "startswith s p = (take (length p) s = p)"

text \<open>\<^verbatim>\<open>readlines()\<close>: the lines of a text, each with the line feed that ends it, the last
  one perhaps without.\<close>

fun readlines_from :: "string \<Rightarrow> string \<Rightarrow> string list" where
  "readlines_from cur [] = (if cur = [] then [] else [cur])"
| "readlines_from cur (c # cs) =
     (if c = LF then (cur @ [c]) # readlines_from [] cs else readlines_from (cur @ [c]) cs)"

definition readlines :: "string \<Rightarrow> string list" where
  "readlines txt = readlines_from [] txt"

definition digit_char :: "nat \<Rightarrow> char" where
  "digit_char d = ''0123456789'' ! d"

fun str_nat :: "nat \<Rightarrow> string" where
  "str_nat n = (if n < 10 then [digit_char n] else str_nat (n div 10) @ [digit_char (n mod 10)])"

declare str_nat.simps [simp del]

definition str_int :: "int \<Rightarrow> string" where
  "str_int i = (if i < 0 then CHR ''-'' # str_nat (nat (- i)) else str_nat (nat i))"

text \<open>\<^verbatim>\<open>zfill(w)\<close> pads with zeros on the left, after a leading sign.\<close>

definition zfill :: "nat \<Rightarrow> string \<Rightarrow> string" where
  "zfill w s =
     (case s of
        c # cs \<Rightarrow>
          if c = CHR ''-'' \<or> c = CHR ''+'' then c # replicate (w - length s) (CHR ''0'') @ cs
          else replicate (w - length s) (CHR ''0'') @ s
      | [] \<Rightarrow> replicate w (CHR ''0''))"

section \<open>Python values, exceptions and the tracker's data\<close>

text \<open>A field value of an issue: a string, \<^verbatim>\<open>None\<close>, or another object, which carries the
  text that \<^verbatim>\<open>six.text_type\<close> makes of it.\<close>

datatype pyval = PyNone | PyStr string | PyObj string

datatype error =
  IOError | ValueError | KeyError | TypeError | AttributeError | CalledProcessError
  | OtherError string

record attachment =
  att_filename :: string
  att_created :: string
  att_content :: string

record comment =
  com_created :: string
  com_author :: string
  com_body :: string

text \<open>The payload of an issue: \<^verbatim>\<open>raw['fields']\<close> with the value \<^verbatim>\<open>getattr(issue.fields, k)\<close>
  of each key, the attachments \<^verbatim>\<open>issue.fields.attachment\<close> and the comments
  \<^verbatim>\<open>issue.fields.comment.comments\<close>. An association list stands for the dict that
  \<^const>\<open>map_of\<close> reads from it.\<close>

record raw_issue =
  raw_fields :: "(string \<times> pyval) list"
  raw_attachment :: "attachment list"
  raw_comments :: "comment list"

record issue =
  options :: string
  raw :: raw_issue

text \<open>A file that the code decodes when it reads it (JSON, or an integer) is kept as what
  the decoder makes of it: the decoded value, or the text that the decoder rejects with
  \<^verbatim>\<open>ValueError\<close>.\<close>

datatype 'a decoded = Unparsable string | Parsed 'a

text \<open>The JSON object of \<^verbatim>\<open>issue.json\<close>; either key may be missing from a file that
  somebody else wrote.\<close>

record storable =
  st_options :: "string option"
  st_raw :: "raw_issue option"

section \<open>The version-control backend and the tracker\<close>

text \<open>The shadow work tree: its files by name, and \<^verbatim>\<open>.jirafs/remote_files.json\<close> in its own
  directory (no attachment and no rendered file has a directory in its name).\<close>

record shadow_tree =
  sh_files :: "(string \<times> string) list"
  sh_remote_files :: "(string \<times> string) list decoded option"

record shadow_repo =
  worktree :: shadow_tree
  index :: shadow_tree
  commits :: "(string \<times> shadow_tree) list"

text \<open>An argument of \<^verbatim>\<open>%\<close>: a string, or an object that is neither a string nor a number
  (a list, a dict, an issue).\<close>

datatype fmt_arg = StrArg string | ObjArg

datatype fmt_args = ListArgs | TupleArgs "fmt_arg list"

text \<open>What leaves the process: calls of the version-control tool (on the shadow tree or
  on the working tree), calls of the tracker client, and the writes of the remote-file
  metadata.\<close>

datatype event =
  EvGetJira
  | EvIssue string
  | EvGit bool "string list"
  | EvAttachmentGet string
  | EvAttachmentDelete string
  | EvAddAttachment string string
  | EvAddComment string string
  | EvUpdate "(string \<times> pyval) list"
  | EvSetRemoteFileMetadata "(string \<times> string) list"

section \<open>The ticket folder\<close>

text \<open>
  The state that a \<^verbatim>\<open>TicketFolder\<close> works on: the attributes of the instance
  (\<^verbatim>\<open>_jira\<close>, \<^verbatim>\<open>_issue\<close>, \<^verbatim>\<open>_cached_issue\<close> exist or not), the files of the metadata
  directory, the working tree, the user's home directory, the shadow repository and the
  reference \<^verbatim>\<open>jira\<close> it is pushed to, the issue as the tracker holds it now, the
  creation stamps the tracker hands out, and the answers of the version-control tool
  for what the model does not compute (\<^verbatim>\<open>None\<close>: the tool exits with an error).
  The tracker client always answers, and the operation log can always be appended to.
\<close>

record ticketfolder =
  ticket_number :: string
  attr_jira :: bool
  attr_issue :: "issue option"
  attr_cached_issue :: "issue option"
  version_file :: "int decoded option"
  issue_json :: "storable decoded option"
  log_file :: "(nat \<times> string \<times> fmt_args) list"
  stdout :: "(nat \<times> string \<times> fmt_args) list"
  work_files :: "(string \<times> string) list"
  home_files :: "(string \<times> string) list"
  shadow :: shadow_repo
  origin_jira :: "(string \<times> shadow_tree) list"
  remote :: issue
  next_created :: "nat \<Rightarrow> string"
  uploads :: nat
  git_answer :: "bool \<Rightarrow> string list \<Rightarrow> string option"
  trace :: "event list"

text \<open>A method either returns a value or raises; either way it leaves a state.\<close>

type_synonym 'a action = "ticketfolder \<Rightarrow> (error + 'a) \<times> ticketfolder"

definition return :: "'a \<Rightarrow> 'a action" where
  "return x s = (Inr x, s)"

definition raise :: "error \<Rightarrow> 'a action" where
  "raise e s = (Inl e, s)"

definition bind :: "'a action \<Rightarrow> ('a \<Rightarrow> 'b action) \<Rightarrow> 'b action" where
  "bind m k s = (case m s of (Inl e, s') \<Rightarrow> (Inl e, s') | (Inr x, s') \<Rightarrow> k x s')"

definition modify :: "(ticketfolder \<Rightarrow> ticketfolder) \<Rightarrow> unit action" where
  "modify f s = (Inr (), f s)"

fun foreach :: "'a list \<Rightarrow> ('a \<Rightarrow> unit action) \<Rightarrow> unit action" where
  "foreach [] body = return ()"
| "foreach (x # xs) body = bind (body x) (\<lambda>_. foreach xs body)"

fun fold_action :: "'a list \<Rightarrow> ('a \<Rightarrow> 'b \<Rightarrow> 'b action) \<Rightarrow> 'b \<Rightarrow> 'b action" where
  "fold_action [] body acc = return acc"
| "fold_action (x # xs) body acc = bind (body x acc) (\<lambda>acc'. fold_action xs body acc')"

subsection \<open>The \<^verbatim>\<open>%\<close> operator of \<^verbatim>\<open>log\<close>\<close>

text \<open>
  \<^verbatim>\<open>log\<close> computes \<^verbatim>\<open>message % args\<close>, where \<^verbatim>\<open>args\<close> is the tuple it was given, or the empty
  list when it was given none. The model decides whether Python 3 raises there, and
  which exception; the text it makes is not computed. After \<^verbatim>\<open>%\<close> come an optional
  mapping key in parentheses, flags, a width, a precision, a length modifier and the
  conversion character. A list on the right of \<^verbatim>\<open>%\<close> counts as a mapping and as a single
  argument; the arguments are strings or objects, never numbers. Widths stay within the
  platform's range.
\<close>

fun skip_key :: "nat \<Rightarrow> string \<Rightarrow> string option" where
  "skip_key 0 cs = Some cs"
| "skip_key (Suc n) [] = None"
| "skip_key (Suc n) (c # cs) =
     (if c = CHR '')'' then skip_key n cs
      else if c = CHR ''('' then skip_key (Suc (Suc n)) cs
      else skip_key (Suc n) cs)"

definition is_flag :: "char \<Rightarrow> bool" where
  "is_flag c = (c \<in> set ''-+ #0'')"

definition is_digit :: "char \<Rightarrow> bool" where
  "is_digit c = (c \<in> set ''0123456789'')"

text \<open>After width and precision: the length modifier and the conversion character.\<close>

definition parse_length :: "string \<Rightarrow> error + (char \<times> string)" where
  "parse_length cs =
     (case cs of
        [] \<Rightarrow> Inl ValueError
      | c # r \<Rightarrow>
          if c \<in> set ''hlL'' then (case r of [] \<Rightarrow> Inl ValueError | c' # r' \<Rightarrow> Inr (c', r'))
          else Inr (c, r))"

definition parse_precision :: "string \<Rightarrow> error + (char \<times> string)" where
  "parse_precision cs =
     (case cs of
        [] \<Rightarrow> Inl ValueError
      | c # r \<Rightarrow>
          if c = CHR ''.'' then
            (case r of
               [] \<Rightarrow> Inl ValueError
             | c' # r' \<Rightarrow>
                 if c' = CHR ''*'' then Inl TypeError
                 else parse_length (dropWhile is_digit r))
          else parse_length cs)"

definition parse_spec :: "bool \<Rightarrow> string \<Rightarrow> error + (char \<times> string)" where
  "parse_spec is_dict cs =
     (case cs of
        [] \<Rightarrow> Inl ValueError
      | c # r \<Rightarrow>
          if c = CHR ''('' then
            (if \<not> is_dict then Inl TypeError
             else (case skip_key 1 r of None \<Rightarrow> Inl ValueError | Some _ \<Rightarrow> Inl TypeError))
          else
            (case dropWhile is_flag cs of
               [] \<Rightarrow> Inl ValueError
             | w # r' \<Rightarrow>
                 if w = CHR ''*'' then Inl TypeError
                 else parse_precision (dropWhile is_digit (w # r'))))"

definition convert :: "char \<Rightarrow> fmt_arg \<Rightarrow> error option" where
  "convert c a =
     (if c \<in> set ''sra'' then None
      else if c \<in> set ''diouxXeEfFgG'' then Some TypeError
      else if c = CHR ''c'' then
        (case a of StrArg [_] \<Rightarrow> None | _ \<Rightarrow> Some TypeError)
      else Some ValueError)"

lemma parse_length_shorter: "parse_length cs = Inr (c, r) \<Longrightarrow> length r < length cs"
  by (auto simp: parse_length_def split: list.splits if_splits)

lemma parse_precision_shorter: "parse_precision cs = Inr (c, r) \<Longrightarrow> length r < length cs"
proof -
  have dw: "\<And>xs. length (dropWhile is_digit xs) \<le> length xs"
    by (simp add: length_dropWhile_le)
  assume "parse_precision cs = Inr (c, r)"
  then show ?thesis
    using dw
    by (auto simp: parse_precision_def split: list.splits if_splits
        dest!: parse_length_shorter intro: less_le_trans le_less_trans less_SucI)
qed

lemma parse_spec_shorter: "parse_spec d cs = Inr (c, r) \<Longrightarrow> length r < length cs"
proof -
  assume a: "parse_spec d cs = Inr (c, r)"
  then obtain w r' where fl: "dropWhile is_flag cs = w # r'"
    and pp: "parse_precision (dropWhile is_digit (w # r')) = Inr (c, r)"
    by (auto simp: parse_spec_def split: list.splits if_splits option.splits)
  have "length r < length (dropWhile is_digit (w # r'))"
    using pp by (rule parse_precision_shorter)
  also have "\<dots> \<le> length (w # r')"
    by (rule length_dropWhile_le)
  also have "\<dots> \<le> length cs"
    using length_dropWhile_le [of is_flag cs] fl by simp
  finally show ?thesis .
qed

function percent_scan :: "bool \<Rightarrow> fmt_arg list \<Rightarrow> string \<Rightarrow> error option" where
  "percent_scan is_dict args [] =
     (if \<not> is_dict \<and> args \<noteq> [] then Some TypeError else None)"
| "percent_scan is_dict args (c # cs) =
     (if c \<noteq> CHR ''%'' then percent_scan is_dict args cs
      else if take 1 cs = ''%'' then percent_scan is_dict args (drop 1 cs)
      else
        (case parse_spec is_dict cs of
           Inl e \<Rightarrow> Some e
         | Inr (conv, rest) \<Rightarrow>
             (case args of
                [] \<Rightarrow> Some TypeError
              | a # args' \<Rightarrow>
                  (case convert conv a of
                     Some e \<Rightarrow> Some e
                   | None \<Rightarrow> percent_scan is_dict args' rest))))"
  by pat_completeness auto
termination
  by (relation "measure (\<lambda>(d, args, cs). length cs)")
     (auto dest: parse_spec_shorter)

definition percent_error :: "string \<Rightarrow> fmt_args \<Rightarrow> error option" where
  "percent_error message args =
     (case args of
        ListArgs \<Rightarrow> percent_scan True [ObjArg] message
      | TupleArgs xs \<Rightarrow> percent_scan False xs message)"

subsection \<open>The lazy properties and the log\<close>

definition DEBUG :: nat where "DEBUG = 10"
definition INFO :: nat where "INFO = 20"
definition ERROR :: nat where "ERROR = 40"

text \<open>\<^verbatim>\<open>jira\<close>: the client is made by \<^verbatim>\<open>get_jira()\<close> on the first use and kept.\<close>

definition jira :: "unit action" where
  "jira s =
     (if \<not> attr_jira s then (Inr (), s\<lparr>attr_jira := True, trace := trace s @ [EvGetJira]\<rparr>)
      else (Inr (), s))"

text \<open>\<^verbatim>\<open>issue\<close>: fetched with \<^verbatim>\<open>self.jira.issue(self.ticket_number)\<close> when the instance has
  no \<^verbatim>\<open>_issue\<close> yet, and kept in \<^verbatim>\<open>_issue\<close>.\<close>

definition issue :: "issue action" where
  "issue s =
     (case attr_issue s of
        None \<Rightarrow>
          bind jira (\<lambda>_ s1.
            (Inr (remote s1),
             s1\<lparr>attr_issue := Some (remote s1),
                trace := trace s1 @ [EvIssue (ticket_number s1)]\<rparr>)) s
      | Some i \<Rightarrow> (Inr i, s))"

text \<open>\<^verbatim>\<open>log\<close>: the entry goes to the operation log; at \<^verbatim>\<open>INFO\<close> and above it is printed
  too, with \<^verbatim>\<open>self.issue\<close> in the line. \<^verbatim>\<open>message % args\<close> is computed first, for the
  log file, and nothing is written when it raises. The entries keep the message and the
  arguments as they were given. The process-wide \<^verbatim>\<open>logger\<close> is not part of the model.\<close>

definition args_or_list :: "fmt_arg list option \<Rightarrow> fmt_args" where
  "args_or_list args = (case args of None \<Rightarrow> ListArgs | Some xs \<Rightarrow> TupleArgs xs)"

definition log :: "string \<Rightarrow> fmt_arg list option \<Rightarrow> nat \<Rightarrow> unit action" where
  "log message args level =
     (case percent_error message (args_or_list args) of
        Some e \<Rightarrow> raise e
      | None \<Rightarrow>
          bind (modify (\<lambda>s. s\<lparr>log_file := log_file s @ [(level, message, args_or_list args)]\<rparr>))
            (\<lambda>_.
          if level \<ge> INFO then
            bind issue (\<lambda>_.
            modify (\<lambda>s. s\<lparr>stdout := stdout s @ [(level, message, args_or_list args)]\<rparr>))
          else return ()))"

definition store_cached_issue :: "unit action" where
  "store_cached_issue =
     bind issue (\<lambda>i.
     modify (\<lambda>s. s\<lparr>issue_json :=
       Some (Parsed \<lparr>st_options = Some (options i), st_raw = Some (raw i)\<rparr>)\<rparr>))"

text \<open>\<^verbatim>\<open>cached_issue\<close>: only \<^verbatim>\<open>IOError\<close> (the file cannot be opened) is caught.\<close>

definition cached_issue :: "issue action" where
  "cached_issue s =
     (case attr_cached_issue s of
        Some i \<Rightarrow> (Inr i, s)
      | None \<Rightarrow>
          (case issue_json s of
             None \<Rightarrow>
               bind (log ''Error encountered while loading cached issue!'' None ERROR) (\<lambda>_.
               bind issue (\<lambda>i.
               bind (modify (\<lambda>s'. s'\<lparr>attr_cached_issue := Some i\<rparr>)) (\<lambda>_.
               return i))) s
           | Some (Unparsable txt) \<Rightarrow> (Inl ValueError, s)
           | Some (Parsed st) \<Rightarrow>
               (case st_options st of
                  None \<Rightarrow> (Inl KeyError, s)
                | Some opts \<Rightarrow>
                    (case st_raw st of
                       None \<Rightarrow> (Inl KeyError, s)
                     | Some r \<Rightarrow>
                         (Inr \<lparr>options = opts, raw = r\<rparr>,
                          s\<lparr>attr_cached_issue := Some \<lparr>options = opts, raw = r\<rparr>\<rparr>)))))"

section \<open>The module constants and the code that is not in the source file\<close>

text \<open>
  The module \<^verbatim>\<open>constants\<close> is not part of the source under study: its values are
  parameters. \<^verbatim>\<open>TICKET_FILE_FIELD_TEMPLATE\<close> is taken with its \<^verbatim>\<open>format(field_name=...)\<close>
  applied, as a function of the field name.
\<close>

record constants =
  TICKET_DETAILS :: string
  TICKET_COMMENTS :: string
  TICKET_NEW_COMMENT :: string
  FILE_FIELDS :: "string list"
  TICKET_FILE_FIELD_TEMPLATE :: "string \<Rightarrow> string"
  NO_DETAIL_FIELDS :: "string list"
  IGNORE_FILE :: string
  REMOTE_IGNORE_FILE :: string
  CURRENT_REPO_VERSION :: int

text \<open>
  Parameters too: \<^verbatim>\<open>fnmatch.fnmatch\<close> (a filename, then a glob); the fields that
  \<^verbatim>\<open>RSTFieldManager.create\<close> reads from the working tree and from a revision; and the
  module \<^verbatim>\<open>migrations\<close>, which gives the function of a name, when it has one.
\<close>

record collaborators =
  fnmatch :: "string \<Rightarrow> string \<Rightarrow> bool"
  rst_fields_of_path :: "(string \<times> string) list \<Rightarrow> (string \<times> pyval) list"
  rst_fields_of_revision :: "string option \<Rightarrow> (string \<times> pyval) list"
  migrations :: "string \<Rightarrow> unit action option"

section \<open>Schema migrations\<close>

text \<open>\<^verbatim>\<open>version\<close>: the integer in the version marker, 1 when the file cannot be opened;
  \<^verbatim>\<open>int()\<close> raises \<^verbatim>\<open>ValueError\<close> on another text.\<close>

definition version :: "int action" where
  "version s =
     (case version_file s of
        None \<Rightarrow> (Inr 1, s)
      | Some (Unparsable txt) \<Rightarrow> (Inl ValueError, s)
      | Some (Parsed v) \<Rightarrow> (Inr v, s))"

definition migration_name :: "int \<Rightarrow> string" where
  "migration_name n = ''migration_'' @ zfill 4 (str_int n)"

definition migrate :: "string \<Rightarrow> unit action \<Rightarrow> nat \<Rightarrow> unit action" where
  "migrate name migrator loglevel =
     bind (log ''%s: Migration started'' (Some [StrArg name]) loglevel) (\<lambda>_.
     bind migrator (\<lambda>_.
     log ''%s: Migration finished'' (Some [StrArg name]) loglevel))"

text \<open>
  \<^verbatim>\<open>run_migrations\<close>: the loop runs as long as the stored version is below
  \<^verbatim>\<open>CURRENT_REPO_VERSION\<close>, and nothing in it bounds the number of rounds, so the model
  is a partial function: \<^const>\<open>None\<close> stands for a loop that never ends. The version is
  read for the test and again for the name; \<^verbatim>\<open>getattr\<close> raises \<^verbatim>\<open>AttributeError\<close> when
  the module has no such migration. The Python returns nothing; the model returns the
  names of the migrations it has called, in the order of the calls.
\<close>

partial_function (option) run_migrations_loop ::
  "collaborators \<Rightarrow> constants \<Rightarrow> nat \<Rightarrow> string list \<Rightarrow> ticketfolder
     \<Rightarrow> ((error + string list) \<times> ticketfolder) option" where
  "run_migrations_loop cl c loglevel applied s =
     (case version s of
        (Inl e, s1) \<Rightarrow> Some (Inl e, s1)
      | (Inr v, s1) \<Rightarrow>
          if v < CURRENT_REPO_VERSION c then
            (case version s1 of
               (Inl e, s2) \<Rightarrow> Some (Inl e, s2)
             | (Inr v', s2) \<Rightarrow>
                 (case migrations cl (migration_name (v' + 1)) of
                    None \<Rightarrow> Some (Inl AttributeError, s2)
                  | Some migrator \<Rightarrow>
                      (case migrate (migration_name (v' + 1)) migrator loglevel s2 of
                         (Inl e, s3) \<Rightarrow> Some (Inl e, s3)
                       | (Inr u, s3) \<Rightarrow>
                           run_migrations_loop cl c loglevel
                             (applied @ [migration_name (v' + 1)]) s3)))
          else Some (Inr applied, s1))"

declare run_migrations_loop.simps [code]

definition run_migrations ::
  "collaborators \<Rightarrow> constants \<Rightarrow> bool \<Rightarrow> ticketfolder
     \<Rightarrow> ((error + string list) \<times> ticketfolder) option" where
  "run_migrations cl c silent = run_migrations_loop cl c (if silent then DEBUG else INFO) []"

text \<open>The precondition of the migration claim: a migration returns, and the version
  marker holds its number when it does.\<close>

definition persists_version :: "int \<Rightarrow> unit action \<Rightarrow> bool" where
  "persists_version n m =
     (\<forall>s. fst (m s) = Inr () \<and> version_file (snd (m s)) = Some (Parsed n))"

text \<open>What the migration claim says is done, written without the loop: the migrations of
  the given numbers, looked up in the module, are called one after the other in the
  order of the list, each between its two log entries. The state this leaves depends on
  what every one of the migrations does.\<close>

definition called_in_order :: "collaborators \<Rightarrow> nat \<Rightarrow> int list \<Rightarrow> unit action" where
  "called_in_order cl loglevel ns =
     foreach ns (\<lambda>n.
       case migrations cl (migration_name n) of
         None \<Rightarrow> raise AttributeError
       | Some m \<Rightarrow>
           bind (log ''%s: Migration started'' (Some [StrArg (migration_name n)]) loglevel) (\<lambda>_.
           bind m (\<lambda>_.
           log ''%s: Migration finished'' (Some [StrArg (migration_name n)]) loglevel)))"

section \<open>The version-control tool\<close>

text \<open>
  Two dicts or two file trees are the same when they read the same at every key.
\<close>

definition same_files :: "(string \<times> string) list \<Rightarrow> (string \<times> string) list \<Rightarrow> bool" where
  "same_files a b = list_all (\<lambda>k. map_of a k = map_of b k) (map fst a @ map fst b)"

definition same_remote_files ::
  "(string \<times> string) list decoded option \<Rightarrow> (string \<times> string) list decoded option \<Rightarrow> bool" where
  "same_remote_files x y =
     (case x of
        None \<Rightarrow> y = None
      | Some (Unparsable t) \<Rightarrow> y = Some (Unparsable t)
      | Some (Parsed a) \<Rightarrow>
          (case y of Some (Parsed b) \<Rightarrow> same_files a b | _ \<Rightarrow> False))"

definition same_tree :: "shadow_tree \<Rightarrow> shadow_tree \<Rightarrow> bool" where
  "same_tree t u =
     (same_files (sh_files t) (sh_files u)
      \<and> same_remote_files (sh_remote_files t) (sh_remote_files u))"

definition head_tree :: "shadow_repo \<Rightarrow> shadow_tree" where
  "head_tree r =
     (case commits r of
        [] \<Rightarrow> \<lparr>sh_files = [], sh_remote_files = None\<rparr>
      | (message, t) # older \<Rightarrow> t)"

text \<open>
  The tool itself is outside the source; this is the model of it. A call is recorded in
  the trace; \<^const>\<open>git_answer\<close> gives its output, or \<^const>\<open>None\<close> when it exits with an
  error. On the shadow repository \<^verbatim>\<open>add -A\<close> stages the whole work tree, \<^verbatim>\<open>commit -m\<close>
  records the staged tree as the newest commit and exits with an error when the staged
  tree is the tree of the last commit (nothing to commit), and \<^verbatim>\<open>push origin jira\<close>
  moves the reference \<^verbatim>\<open>jira\<close> to the shadow history. No other command changes a file
  that the folder reads: the working tree is never switched away from \<^verbatim>\<open>master\<close>, so
  \<^verbatim>\<open>merge master\<close> there finds it up to date.
\<close>

definition git :: "bool \<Rightarrow> string list \<Rightarrow> ticketfolder \<Rightarrow> string option \<times> ticketfolder" where
  "git sh args s =
     (let s1 = s\<lparr>trace := trace s @ [EvGit sh args]\<rparr> in
      case git_answer s sh args of
        None \<Rightarrow> (None, s1)
      | Some out \<Rightarrow>
          if sh \<and> args = [''add'', ''-A''] then
            (Some out, s1\<lparr>shadow := (shadow s1)\<lparr>index := worktree (shadow s1)\<rparr>\<rparr>)
          else if sh \<and> length args = 3 \<and> take 2 args = [''commit'', ''-m''] then
            (if same_tree (index (shadow s1)) (head_tree (shadow s1)) then (None, s1)
             else (Some out,
                   s1\<lparr>shadow := (shadow s1)
                        \<lparr>commits := (args ! 2, index (shadow s1)) # commits (shadow s1)\<rparr>\<rparr>))
          else if sh \<and> args = [''push'', ''origin'', ''jira''] then
            (Some out, s1\<lparr>origin_jira := commits (shadow s1)\<rparr>)
          else (Some out, s1))"

section \<open>The methods of \<^verbatim>\<open>TicketFolder\<close>\<close>

text \<open>\<^verbatim>\<open>run_git_command\<close>: the stripped output; \<^verbatim>\<open>None\<close> after a tolerated failure;
  \<^verbatim>\<open>CalledProcessError\<close> after any other failure. \<open>sh\<close> is the keyword \<^verbatim>\<open>shadow\<close>.\<close>

definition run_git_command :: "string list \<Rightarrow> bool \<Rightarrow> bool \<Rightarrow> string option action" where
  "run_git_command args failure_ok sh =
     bind (log ''Executing git command %s'' (Some [ObjArg]) DEBUG) (\<lambda>_ s.
       case git sh args s of
         (Some out, s') \<Rightarrow> (Inr (Some (strip out)), s')
       | (None, s') \<Rightarrow>
           if failure_ok then (Inr None, s') else (Inl CalledProcessError, s'))"

definition git_merge_base :: "string option action" where
  "git_merge_base = run_git_command [''merge-base'', ''master'', ''jira''] False False"

definition get_remote_file_metadata :: "(string \<times> string) list action" where
  "get_remote_file_metadata s =
     (case sh_remote_files (worktree (shadow s)) of
        None \<Rightarrow> (Inr [], s)
      | Some (Unparsable txt) \<Rightarrow> (Inl ValueError, s)
      | Some (Parsed d) \<Rightarrow> (Inr d, s))"

definition set_remote_file_metadata :: "(string \<times> string) list \<Rightarrow> unit action" where
  "set_remote_file_metadata d =
     modify (\<lambda>s. s\<lparr>shadow := (shadow s)
                     \<lparr>worktree := (worktree (shadow s))\<lparr>sh_remote_files := Some (Parsed d)\<rparr>\<rparr>,
                   trace := trace s @ [EvSetRemoteFileMetadata d]\<rparr>)"

subsection \<open>Ignore globs\<close>

definition builtin_globs :: "constants \<Rightarrow> string list" where
  "builtin_globs c =
     [TICKET_DETAILS c, TICKET_COMMENTS c, TICKET_NEW_COMMENT c]
     @ map (TICKET_FILE_FIELD_TEMPLATE c) (FILE_FIELDS c)"

definition get_globs_from_file :: "string list \<Rightarrow> string list" where
  "get_globs_from_file lines =
     map strip (filter (\<lambda>line. \<not> (startswith line ''#'' \<or> strip line = [])) lines)"

text \<open>The globs of an ignore file of a directory; none when the file cannot be opened.\<close>

definition globs_of_file :: "(string \<times> string) list \<Rightarrow> string \<Rightarrow> string list" where
  "globs_of_file files which =
     (case map_of files which of
        None \<Rightarrow> []
      | Some txt \<Rightarrow> get_globs_from_file (readlines txt))"

definition get_ignore_globs :: "constants \<Rightarrow> string \<Rightarrow> string list action" where
  "get_ignore_globs c which s =
     (Inr (builtin_globs c
           @ globs_of_file (work_files s) which
           @ globs_of_file (home_files s) which), s)"

definition file_matches_globs :: "collaborators \<Rightarrow> string \<Rightarrow> string list \<Rightarrow> bool" where
  "file_matches_globs cl name ignore_globs = list_ex (\<lambda>glob. fnmatch cl name glob) ignore_globs"

subsection \<open>Local and remote changes\<close>

text \<open>\<^verbatim>\<open>get_locally_changed\<close>: \<^verbatim>\<open>.split\<close> is called on what \<^verbatim>\<open>run_git_command\<close> returns, which
  is \<^verbatim>\<open>None\<close> after a tolerated failure.\<close>

definition get_locally_changed :: "collaborators \<Rightarrow> constants \<Rightarrow> string list action" where
  "get_locally_changed cl c =
     bind (get_ignore_globs c (IGNORE_FILE c)) (\<lambda>ignore_globs.
     bind (run_git_command [''ls-files'', ''-o''] True False) (\<lambda>new_out.
     case new_out of
       None \<Rightarrow> raise AttributeError
     | Some new_text \<Rightarrow>
         bind (run_git_command [''ls-files'', ''-m''] True False) (\<lambda>modified_out.
         case modified_out of
           None \<Rightarrow> raise AttributeError
         | Some modified_text \<Rightarrow>
             (\<lambda>s. (Inr (filter (\<lambda>name.
                           \<not> file_matches_globs cl name ignore_globs
                           \<and> map_of (work_files s) name \<noteq> None
                           \<and> \<not> startswith name ''.'')
                         (filter (\<lambda>name. name \<noteq> [])
                            (split_on LF new_text @ split_on LF modified_text))), s)))))"

definition get_remotely_changed :: "collaborators \<Rightarrow> constants \<Rightarrow> string list action" where
  "get_remotely_changed cl c =
     bind (get_ignore_globs c (REMOTE_IGNORE_FILE c)) (\<lambda>ignore_globs.
     bind get_remote_file_metadata (\<lambda>metadata.
     bind issue (\<lambda>i.
     return (map att_filename
       (filter (\<lambda>a. \<not> file_matches_globs cl (att_filename a) ignore_globs
                    \<and> map_of metadata (att_filename a) \<noteq> Some (att_created a))
          (raw_attachment (raw i)))))))"

subsection \<open>Field differences, the new comment, the status\<close>

text \<open>\<^verbatim>\<open>d.get(k)\<close> of a dict of field values: \<^verbatim>\<open>None\<close> when the key is missing.\<close>

definition dict_get :: "(string \<times> pyval) list \<Rightarrow> string \<Rightarrow> pyval" where
  "dict_get d k = (case map_of d k of None \<Rightarrow> PyNone | Some v \<Rightarrow> v)"

definition get_local_fields :: "collaborators \<Rightarrow> (string \<times> pyval) list action" where
  "get_local_fields cl s = (Inr (rst_fields_of_path cl (work_files s)), s)"

definition get_original_values :: "collaborators \<Rightarrow> (string \<times> pyval) list action" where
  "get_original_values cl =
     bind git_merge_base (\<lambda>revision.
     return (rst_fields_of_revision cl revision))"

text \<open>\<^verbatim>\<open>get_local_differing_fields\<close>: the loop runs over the items of the original values,
  each key once (\<^const>\<open>AList.clearjunk\<close> drops the shadowed entries of the association list).\<close>

definition get_local_differing_fields ::
  "collaborators \<Rightarrow> (string \<times> pyval \<times> pyval) list action" where
  "get_local_differing_fields cl =
     bind (get_local_fields cl) (\<lambda>local_fields.
     bind (get_original_values cl) (\<lambda>original_values.
     return (fold (\<lambda>(k, v) differing.
                     if dict_get local_fields k \<noteq> v
                     then AList.update k (v, dict_get local_fields k) differing
                     else differing)
               (AList.clearjunk original_values) [])))"

text \<open>\<^verbatim>\<open>get_new_comment\<close>: the stripped text of the buffer file, which is truncated when
  \<^verbatim>\<open>clear\<close> is set; the empty string when the file cannot be opened.\<close>

definition get_new_comment :: "constants \<Rightarrow> bool \<Rightarrow> string action" where
  "get_new_comment c clear s =
     (case map_of (work_files s) (TICKET_NEW_COMMENT c) of
        None \<Rightarrow> (Inr [], s)
      | Some txt \<Rightarrow>
          (Inr (strip txt),
           if clear
           then s\<lparr>work_files := AList.update (TICKET_NEW_COMMENT c) [] (work_files s)\<rparr>
           else s))"

record status =
  to_upload :: "string list"
  local_differs :: "(string \<times> pyval \<times> pyval) list"
  new_comment :: string

definition status :: "collaborators \<Rightarrow> constants \<Rightarrow> status action" where
  "status cl c =
     bind (get_locally_changed cl c) (\<lambda>locally_changed.
     bind (get_local_differing_fields cl) (\<lambda>differing.
     bind (get_new_comment c False) (\<lambda>comment.
     return \<lparr>to_upload = locally_changed, local_differs = differing,
             new_comment = comment\<rparr>)))"

subsection \<open>\<^verbatim>\<open>fetch\<close>\<close>

definition put_file :: "string \<Rightarrow> string \<Rightarrow> shadow_repo \<Rightarrow> shadow_repo" where
  "put_file name txt r =
     r\<lparr>worktree := (worktree r)\<lparr>sh_files := AList.update name txt (sh_files (worktree r))\<rparr>\<rparr>"

text \<open>A file of the shadow work tree is opened for writing, written and closed.\<close>

definition write_shadow :: "string \<Rightarrow> string \<Rightarrow> unit action" where
  "write_shadow name txt = modify (\<lambda>s. s\<lparr>shadow := put_file name txt (shadow s)\<rparr>)"

text \<open>The body of the download loop for one attachment: the file is opened (and is empty
  from then on), the download is logged, the creation stamp is recorded in \<^verbatim>\<open>file_meta\<close>,
  and what \<^verbatim>\<open>attachment.get()\<close> returns is written.\<close>

definition download :: "attachment \<Rightarrow> (string \<times> string) list \<Rightarrow> (string \<times> string) list action" where
  "download a file_meta =
     bind (write_shadow (att_filename a) []) (\<lambda>_.
     bind (log ''Download file \"%s\"'' (Some [StrArg (att_filename a)]) INFO) (\<lambda>_.
     bind (modify (\<lambda>s. s\<lparr>trace := trace s @ [EvAttachmentGet (att_filename a)]\<rparr>)) (\<lambda>_.
     bind (write_shadow (att_filename a) (att_content a)) (\<lambda>_.
     return (AList.update (att_filename a) (att_created a) file_meta)))))"

text \<open>The two nested loops of \<^verbatim>\<open>fetch\<close>: for every changed filename, every attachment of
  that name is downloaded, in the order of \<^verbatim>\<open>self.issue.fields.attachment\<close>.\<close>

definition download_loop ::
  "string list \<Rightarrow> (string \<times> string) list \<Rightarrow> (string \<times> string) list action" where
  "download_loop changed file_meta =
     fold_action changed (\<lambda>name meta.
       bind issue (\<lambda>i.
       fold_action (raw_attachment (raw i)) (\<lambda>a meta'.
         if att_filename a = name then download a meta' else return meta') meta))
     file_meta"

text \<open>
  The rendering of one field (the body of the loop over the sorted field names): nothing,
  a file of its own, or a block of the details file. After the first three branches the
  value is a string, so the later test \<^verbatim>\<open>value is None\<close> never holds.
\<close>

datatype rendering = Skipped | FieldFile string string | DetailBlock string

definition indented :: "string \<Rightarrow> string" where
  "indented txt = concat (map (\<lambda>line. ''    '' @ line @ [LF]) (split_on LF (replace_crlf txt)))"

definition render_field :: "constants \<Rightarrow> string \<Rightarrow> pyval \<Rightarrow> rendering" where
  "render_field c field v =
     (case (case v of
              PyStr txt \<Rightarrow> Some (strip (replace_crlf txt))
            | PyNone \<Rightarrow> Some []
            | PyObj txt \<Rightarrow> if field \<in> set (NO_DETAIL_FIELDS c) then None else Some txt) of
        None \<Rightarrow> Skipped
      | Some txt \<Rightarrow>
          if field \<in> set (FILE_FIELDS c)
          then FieldFile (TICKET_FILE_FIELD_TEMPLATE c field) (txt @ [LF])
          else if field \<in> set (NO_DETAIL_FIELDS c) then Skipped
          else DetailBlock (field @ ''::'' @ [LF, LF] @ indented txt @ [LF]))"

text \<open>\<^verbatim>\<open>sorted(self.issue.raw['fields'].keys())\<close>, each name with its rendering.\<close>

definition renderings :: "constants \<Rightarrow> (string \<times> pyval) list \<Rightarrow> (string \<times> rendering) list" where
  "renderings c flds =
     map (\<lambda>field. (field, render_field c field (dict_get flds field)))
       (sort (remdups (map fst flds)))"

text \<open>The blocks written to the details file, each with the name of its field.\<close>

definition details_blocks :: "constants \<Rightarrow> (string \<times> pyval) list \<Rightarrow> (string \<times> string) list" where
  "details_blocks c flds =
     concat (map (\<lambda>(field, r). case r of DetailBlock txt \<Rightarrow> [(field, txt)] | _ \<Rightarrow> [])
       (renderings c flds))"

definition field_files :: "constants \<Rightarrow> (string \<times> pyval) list \<Rightarrow> (string \<times> string) list" where
  "field_files c flds =
     concat (map (\<lambda>(field, r). case r of FieldFile name txt \<Rightarrow> [(name, txt)] | _ \<Rightarrow> [])
       (renderings c flds))"

definition comments_text :: "comment list \<Rightarrow> string" where
  "comments_text cs =
     concat (map (\<lambda>cm. com_created cm @ '': '' @ com_author cm @ ''::'' @ [LF, LF]
                        @ indented (com_body cm) @ [LF]) cs)"

text \<open>
  \<^verbatim>\<open>fetch\<close>. The details file is open (and empty) while the fields are rendered, and
  receives its blocks when it is closed; the files of the file-valued fields are written
  inside the loop.
\<close>

definition fetch :: "collaborators \<Rightarrow> constants \<Rightarrow> unit action" where
  "fetch cl c =
     bind get_remote_file_metadata (\<lambda>file_meta.
     bind (get_remotely_changed cl c) (\<lambda>changed.
     bind (download_loop changed file_meta) (\<lambda>file_meta'.
     bind (set_remote_file_metadata file_meta') (\<lambda>_.
     bind (write_shadow (TICKET_DETAILS c) []) (\<lambda>_.
     bind issue (\<lambda>i.
     bind (foreach (field_files c (raw_fields (raw i))) (\<lambda>(name, txt). write_shadow name txt))
       (\<lambda>_.
     bind (write_shadow (TICKET_DETAILS c)
             (concat (map snd (details_blocks c (raw_fields (raw i)))))) (\<lambda>_.
     bind (write_shadow (TICKET_COMMENTS c) (comments_text (raw_comments (raw i)))) (\<lambda>_.
     bind store_cached_issue (\<lambda>_.
     bind (run_git_command [''add'', ''-A''] False True) (\<lambda>_.
     bind (run_git_command [''commit'', ''-m'', ''Pulled remote changes''] True True) (\<lambda>_.
     bind (run_git_command [''push'', ''origin'', ''jira''] False True) (\<lambda>_.
     return ())))))))))))))"

subsection \<open>\<^verbatim>\<open>push\<close>\<close>

text \<open>
  The calls of the tracker client that change the ticket. The model records each call in
  the trace and leaves the tracker's copy of the issue as it is; \<^verbatim>\<open>add_attachment\<close> returns
  an attachment whose creation stamp is the next one the tracker hands out.
\<close>

definition attachment_delete :: "attachment \<Rightarrow> unit action" where
  "attachment_delete a =
     modify (\<lambda>s. s\<lparr>trace := trace s @ [EvAttachmentDelete (att_filename a)]\<rparr>)"

definition add_attachment :: "string \<Rightarrow> string action" where
  "add_attachment name =
     bind jira (\<lambda>_ s.
       (Inr (next_created s (uploads s)),
        s\<lparr>uploads := Suc (uploads s),
          trace := trace s @ [EvAddAttachment (ticket_number s) name]\<rparr>))"

definition add_comment :: "string \<Rightarrow> unit action" where
  "add_comment body =
     bind jira (\<lambda>_.
     modify (\<lambda>s. s\<lparr>trace := trace s @ [EvAddComment (ticket_number s) body]\<rparr>))"

definition issue_update :: "(string \<times> pyval) list \<Rightarrow> unit action" where
  "issue_update updates =
     bind issue (\<lambda>_.
     modify (\<lambda>s. s\<lparr>trace := trace s @ [EvUpdate updates]\<rparr>))"

text \<open>A file of the working tree is opened for reading; \<^verbatim>\<open>IOError\<close> when it is not
  there.\<close>

definition read_local :: "string \<Rightarrow> string action" where
  "read_local name s =
     (case map_of (work_files s) name of
        None \<Rightarrow> (Inl IOError, s)
      | Some content \<Rightarrow> (Inr content, s))"

text \<open>The body of the upload loop: the local file is opened, every remote attachment of
  the same name is deleted, and the file is uploaded.\<close>

definition upload :: "string \<Rightarrow> (string \<times> string) list \<Rightarrow> (string \<times> string) list action" where
  "upload name file_meta =
     bind (read_local name) (\<lambda>content.
     bind (log ''Uploading file \"%s\"'' (Some [StrArg name]) INFO) (\<lambda>_.
     bind issue (\<lambda>i.
     bind (foreach (raw_attachment (raw i)) (\<lambda>a.
             if att_filename a = name then attachment_delete a else return ())) (\<lambda>_.
     bind (add_attachment name) (\<lambda>stamp.
     return (AList.update name stamp file_meta))))))"

text \<open>
  \<^verbatim>\<open>push\<close>. The message of the comment's log entry is \<^verbatim>\<open>'Adding comment "%s"' % comment\<close>,
  already formatted, and \<^verbatim>\<open>log\<close> is given no arguments with it.
\<close>

definition push :: "collaborators \<Rightarrow> constants \<Rightarrow> unit action" where
  "push cl c =
     bind (status cl c) (\<lambda>st.
     bind get_remote_file_metadata (\<lambda>file_meta.
     bind (fold_action (to_upload st) upload file_meta) (\<lambda>file_meta'.
     bind (get_new_comment c True) (\<lambda>comment.
     bind (if comment \<noteq> []
           then bind (log (''Adding comment \"'' @ comment @ ''\"'') None INFO) (\<lambda>_.
                add_comment comment)
           else return ()) (\<lambda>_.
     bind (return (fold (\<lambda>(field, diff_values). AList.update field (snd diff_values))
                     (local_differs st) [])) (\<lambda>collected_updates.
     bind (if collected_updates \<noteq> []
           then bind (log ''Updating fields \"%s\"'' (Some [ObjArg]) INFO) (\<lambda>_.
                issue_update collected_updates)
           else return ()) (\<lambda>_.
     bind (run_git_command [''add'', ''-A''] True False) (\<lambda>_.
     bind (run_git_command [''commit'', ''-m'', ''Pushed local changes''] True False) (\<lambda>_.
     bind (run_git_command [''fetch''] False True) (\<lambda>_.
     bind (run_git_command [''merge'', ''master''] False False) (\<lambda>_.
     bind (set_remote_file_metadata file_meta') (\<lambda>_.
     bind (run_git_command [''add'', ''-A''] False True) (\<lambda>_.
     bind (run_git_command [''commit'', ''-m'', ''Pulled remote changes''] True True) (\<lambda>_.
     bind (run_git_command [''push'', ''origin'', ''jira''] False True) (\<lambda>_.
     return ())))))))))))))))"

section \<open>Descriptions used in the proofs\<close>

text \<open>\<open>keeps f m\<close>: the method \<open>m\<close> leaves the part \<open>f\<close> of the folder as it was, whether
  it returns or raises.\<close>

lemma bind_Inr:
  "bind m k s = (Inr y, t) \<longleftrightarrow> (\<exists>x s'. m s = (Inr x, s') \<and> k x s' = (Inr y, t))"
  by (auto simp: bind_def split: prod.splits sum.splits)

definition keeps :: "(ticketfolder \<Rightarrow> 'x) \<Rightarrow> 'a action \<Rightarrow> bool" where
  "keeps f m = (\<forall>s. f (snd (m s)) = f s)"

text \<open>The issue that the property \<^verbatim>\<open>issue\<close> returns in a state, and the parts of the folder
  that no method below changes.\<close>

definition live :: "ticketfolder \<Rightarrow> issue" where
  "live s = (case attr_issue s of None \<Rightarrow> remote s | Some i \<Rightarrow> i)"

definition env :: "ticketfolder \<Rightarrow> issue \<times> issue \<times> (string \<times> string) list \<times> (string \<times> string) list
    \<times> (bool \<Rightarrow> string list \<Rightarrow> string option)" where
  "env s = (live s, remote s, work_files s, home_files s, git_answer s)"

text \<open>The download loops of \<^verbatim>\<open>fetch\<close> as pure functions on the metadata dict and on the
  shadow repository.\<close>

definition meta_inner :: "string \<Rightarrow> attachment list \<Rightarrow> (string \<times> string) list \<Rightarrow> (string \<times> string) list" where
  "meta_inner name atts fm =
     fold (\<lambda>a m. if att_filename a = name then AList.update name (att_created a) m else m) atts fm"

definition sh_inner :: "string \<Rightarrow> attachment list \<Rightarrow> shadow_repo \<Rightarrow> shadow_repo" where
  "sh_inner name atts r =
     fold (\<lambda>a r'. if att_filename a = name
                  then put_file name (att_content a) (put_file name [] r') else r') atts r"

definition meta_outer :: "string list \<Rightarrow> attachment list \<Rightarrow> (string \<times> string) list \<Rightarrow> (string \<times> string) list" where
  "meta_outer changed atts fm = fold (\<lambda>name. meta_inner name atts) changed fm"

definition sh_outer :: "string list \<Rightarrow> attachment list \<Rightarrow> shadow_repo \<Rightarrow> shadow_repo" where
  "sh_outer changed atts r = fold (\<lambda>name. sh_inner name atts) changed r"

text \<open>The value that the last attachment of a name carries.\<close>

definition latest :: "(attachment \<Rightarrow> string) \<Rightarrow> attachment list \<Rightarrow> string \<rightharpoonup> string" where
  "latest val atts = map_of (rev (map (\<lambda>a. (att_filename a, val a)) atts))"

text \<open>What a shadow tree reads as.\<close>

definition tree_sem :: "shadow_tree \<Rightarrow> (string \<rightharpoonup> string) \<times> (string \<rightharpoonup> string) decoded option" where
  "tree_sem t = (map_of (sh_files t), map_option (map_decoded map_of) (sh_remote_files t))"

text \<open>What \<^verbatim>\<open>get_remotely_changed\<close> returns, and what \<^verbatim>\<open>fetch\<close> writes after the downloads,
  in the order of the writes.\<close>

definition remote_globs :: "constants \<Rightarrow> ticketfolder \<Rightarrow> string list" where
  "remote_globs c s = builtin_globs c @ globs_of_file (work_files s) (REMOTE_IGNORE_FILE c)
       @ globs_of_file (home_files s) (REMOTE_IGNORE_FILE c)"

definition changed_names ::
  "collaborators \<Rightarrow> constants \<Rightarrow> ticketfolder \<Rightarrow> (string \<times> string) list \<Rightarrow> string list" where
  "changed_names cl c s fm =
     map att_filename
       (filter (\<lambda>a. \<not> file_matches_globs cl (att_filename a) (remote_globs c s)
                    \<and> map_of fm (att_filename a) \<noteq> Some (att_created a))
          (raw_attachment (raw (live s))))"

definition rendered :: "constants \<Rightarrow> issue \<Rightarrow> (string \<times> string) list" where
  "rendered c i =
     [(TICKET_DETAILS c, [])] @ field_files c (raw_fields (raw i))
     @ [(TICKET_DETAILS c, concat (map snd (details_blocks c (raw_fields (raw i))))),
        (TICKET_COMMENTS c, comments_text (raw_comments (raw i)))]"

definition set_meta :: "(string \<times> string) list \<Rightarrow> shadow_repo \<Rightarrow> shadow_repo" where
  "set_meta fm r = r\<lparr>worktree := (worktree r)\<lparr>sh_remote_files := Some (Parsed fm)\<rparr>\<rparr>"

definition put_all :: "(string \<times> string) list \<Rightarrow> shadow_repo \<Rightarrow> shadow_repo" where
  "put_all ws r = fold (\<lambda>(name, txt). put_file name txt) ws r"

text \<open>The comments that the trace shows as submitted, and the methods that only add to
  the trace.\<close>

fun comment_of :: "event \<Rightarrow> string list" where
  "comment_of (EvAddComment k body) = [body]"
| "comment_of ev = []"

definition added_comments :: "ticketfolder \<Rightarrow> string list" where
  "added_comments s = concat (map comment_of (trace s))"

definition grows :: "'a action \<Rightarrow> bool" where
  "grows m = (\<forall>s. \<exists>evs. trace (snd (m s)) = trace s @ evs)"

section \<open>Example folders\<close>

definition issue_a :: issue where
  "issue_a = \<lparr>options = ''server'',
     raw = \<lparr>raw_fields = [(''summary'', PyStr ''First'')], raw_attachment = [],
            raw_comments = []\<rparr>\<rparr>"

definition issue_b :: issue where
  "issue_b = \<lparr>options = ''server'',
     raw = \<lparr>raw_fields = [(''summary'', PyStr ''Second'')], raw_attachment = [],
            raw_comments = []\<rparr>\<rparr>"

definition empty_tree :: shadow_tree where
  "empty_tree = \<lparr>sh_files = [], sh_remote_files = None\<rparr>"

text \<open>A folder \<^verbatim>\<open>PROJ-123\<close> right after its construction: nothing fetched yet, no version
  marker, an empty shadow repository, a version-control tool that succeeds and prints
  nothing.\<close>

definition folder0 :: ticketfolder where
  "folder0 = \<lparr>ticket_number = ''PROJ-123'', attr_jira = False, attr_issue = None,
     attr_cached_issue = None, version_file = None, issue_json = None, log_file = [],
     stdout = [], work_files = [], home_files = [],
     shadow = \<lparr>worktree = empty_tree, index = empty_tree, commits = []\<rparr>,
     origin_jira = [], remote = issue_a, next_created = (\<lambda>n. ''T'' @ str_nat n),
     uploads = 0, git_answer = (\<lambda>sh args. Some []), trace = []\<rparr>"

text \<open>Globs with \<^verbatim>\<open>*\<close> and \<^verbatim>\<open>?\<close> only, matched as \<^verbatim>\<open>fnmatch\<close> matches them: the
  stand-in for \<^verbatim>\<open>fnmatch.fnmatch\<close> in the examples.\<close>

fun glob_match :: "string \<Rightarrow> string \<Rightarrow> bool" where
  "glob_match [] [] = True"
| "glob_match [] (c # cs) = False"
| "glob_match (p # ps) [] = (p = CHR ''*'' \<and> glob_match ps [])"
| "glob_match (p # ps) (c # cs) =
     (if p = CHR ''*'' then glob_match ps (c # cs) \<or> glob_match (p # ps) cs
      else (p = CHR ''?'' \<or> p = c) \<and> glob_match ps cs)"

definition constants0 :: constants where
  "constants0 = \<lparr>TICKET_DETAILS = ''details.jira.rst'',
     TICKET_COMMENTS = ''comments.read_only.jira.rst'',
     TICKET_NEW_COMMENT = ''new_comment.jira.txt'',
     FILE_FIELDS = [''description''],
     TICKET_FILE_FIELD_TEMPLATE = (\<lambda>field_name. field_name @ ''.jira.rst''),
     NO_DETAIL_FIELDS = [''comment'', ''watches'', ''attachment''],
     IGNORE_FILE = ''.jirafs_ignore'',
     REMOTE_IGNORE_FILE = ''.jirafs_remote_ignore'',
     CURRENT_REPO_VERSION = 3\<rparr>"

text \<open>Two migrations, each writing its number into the version marker; no fields in
  the working tree or in any revision.\<close>

definition collab0 :: collaborators where
  "collab0 = \<lparr>fnmatch = (\<lambda>name glob. glob_match glob name),
     rst_fields_of_path = (\<lambda>files. []),
     rst_fields_of_revision = (\<lambda>revision. []),
     migrations = (\<lambda>name.
       if name = ''migration_0002''
       then Some (modify (\<lambda>s. s\<lparr>version_file := Some (Parsed 2)\<rparr>))
       else if name = ''migration_0003''
       then Some (modify (\<lambda>s. s\<lparr>version_file := Some (Parsed 3)\<rparr>))
       else None)\<rparr>"

text \<open>Two migrations that leave a file in the working tree besides their number in the
  version marker; a module that holds both, and a module that holds the first only.\<close>

definition example_migration_2 :: "unit action" where
  "example_migration_2 =
     modify (\<lambda>s. s\<lparr>work_files := AList.update ''.jirafs_remote_ignore'' [] (work_files s),
                   version_file := Some (Parsed 2)\<rparr>)"

definition example_migration_3 :: "unit action" where
  "example_migration_3 =
     modify (\<lambda>s. s\<lparr>work_files := AList.update ''.jirafs_ignore'' [] (work_files s),
                   version_file := Some (Parsed 3)\<rparr>)"

definition collab_mig :: collaborators where
  "collab_mig = collab0\<lparr>migrations :=
     map_of [(''migration_0002'', example_migration_2),
             (''migration_0003'', example_migration_3)]\<rparr>"

definition collab_gap :: collaborators where
  "collab_gap = collab0\<lparr>migrations := map_of [(''migration_0002'', example_migration_2)]\<rparr>"

text \<open>The collaborators of \<^const>\<open>collab0\<close>, with a field manager that reads three fields
  from the working tree and two from every revision.\<close>

definition collab1 :: collaborators where
  "collab1 = collab0\<lparr>
     rst_fields_of_path := (\<lambda>files.
       [(''summary'', PyStr ''B''), (''status'', PyStr ''Open''), (''labels'', PyStr ''new'')]),
     rst_fields_of_revision := (\<lambda>revision.
       [(''summary'', PyStr ''A''), (''status'', PyStr ''Open'')])\<rparr>"

text \<open>A folder with a local ignore file for \<^verbatim>\<open>*.tmp\<close>, a user-global remote ignore file
  for \<^verbatim>\<open>*.log\<close>, two untracked files and two remote attachments.\<close>

definition folder_ignore :: ticketfolder where
  "folder_ignore = folder0\<lparr>
     work_files := [(''.jirafs_ignore'', ''*.tmp'' @ [LF]), (''a.tmp'', ''junk''),
                    (''notes.txt'', ''hello'')],
     home_files := [(''.jirafs_remote_ignore'', ''*.log'' @ [LF])],
     git_answer := (\<lambda>sh args.
       if args = [''ls-files'', ''-o''] then Some (''a.tmp'' @ [LF] @ ''notes.txt'' @ [LF])
       else Some []),
     remote := \<lparr>options = ''server'',
       raw = \<lparr>raw_fields = [],
              raw_attachment =
                [\<lparr>att_filename = ''a.tmp'', att_created = ''T1'', att_content = ''x''\<rparr>,
                 \<lparr>att_filename = ''b.log'', att_created = ''T2'', att_content = ''y''\<rparr>],
              raw_comments = []\<rparr>\<rparr>\<rparr>"

text \<open>An issue with an attachment, a comment, a file-valued field and three fields that
  are flagged as no-detail, and a fresh folder for it.\<close>

definition issue_c :: issue where
  "issue_c = \<lparr>options = ''server'',
     raw = \<lparr>raw_fields = [(''watches'', PyObj ''<JIRA Watchers>''), (''summary'', PyStr ''First''),
                          (''comment'', PyStr ''hidden''), (''attachment'', PyNone),
                          (''description'', PyStr ''Body'')],
            raw_attachment =
              [\<lparr>att_filename = ''spec.pdf'', att_created = ''T1'', att_content = ''%PDF''\<rparr>],
            raw_comments =
              [\<lparr>com_created = ''2014-01-01'', com_author = ''me'', com_body = ''hello''\<rparr>]\<rparr>\<rparr>"

definition folder_c :: ticketfolder where
  "folder_c = folder0\<lparr>remote := issue_c\<rparr>"

text \<open>Folders with a pending comment: \<^verbatim>\<open>100%\<close>, a comment and a new file, and a blank
  line.\<close>

definition folder_pct :: ticketfolder where
  "folder_pct = folder0\<lparr>work_files := [(''new_comment.jira.txt'', ''100%'' @ [LF])]\<rparr>"

definition folder_push :: ticketfolder where
  "folder_push = folder0\<lparr>
     work_files := [(''new_comment.jira.txt'', ''  looks good'' @ [LF]), (''notes.txt'', ''hello'')],
     git_answer := (\<lambda>sh args.
       if args = [''ls-files'', ''-o''] then Some (''notes.txt'' @ [LF])
       else Some [])\<rparr>"

definition folder_blank :: ticketfolder where
  "folder_blank = folder0\<lparr>work_files := [(''new_comment.jira.txt'', '' '' @ [LF])]\<rparr>"

section \<open>What the lazy properties and the log do, in one equation each\<close>

lemma issue_result:
  "issue s = (Inr (case attr_issue s of None \<Rightarrow> remote s | Some i \<Rightarrow> i),
     case attr_issue s of
       None \<Rightarrow> s\<lparr>attr_jira := True, attr_issue := Some (remote s),
                 trace := trace s @ (if attr_jira s then [] else [EvGetJira])
                          @ [EvIssue (ticket_number s)]\<rparr>
     | Some i \<Rightarrow> s)"
  by (simp add: issue_def jira_def bind_def split: option.splits)

lemma log_result:
  "log message args level s =
     (case percent_error message (args_or_list args) of
        Some e \<Rightarrow> (Inl e, s)
      | None \<Rightarrow>
          if INFO \<le> level then
            (Inr (),
             (snd (issue (s\<lparr>log_file := log_file s @ [(level, message, args_or_list args)]\<rparr>)))
               \<lparr>stdout := stdout s @ [(level, message, args_or_list args)]\<rparr>)
          else (Inr (), s\<lparr>log_file := log_file s @ [(level, message, args_or_list args)]\<rparr>))"
  by (simp add: log_def bind_def modify_def return_def raise_def issue_result
      split: option.splits)

lemma args_or_list_simps [simp]:
  "args_or_list None = ListArgs"
  "args_or_list (Some xs) = TupleArgs xs"
  by (simp_all add: args_or_list_def)

lemma percent_error_loading:
  "percent_error ''Error encountered while loading cached issue!'' ListArgs = None"
  by (simp add: percent_error_def)

section \<open>C1: the \<^verbatim>\<open>issue\<close> property\<close>

text \<open>
  C1, as amended. Only the first access to \<^verbatim>\<open>issue\<close> on an instance fetches the issue
  from the tracker (making the client first, if there is none yet) and keeps it in
  \<^verbatim>\<open>_issue\<close>. Every later access on the same instance returns the kept issue and
  changes nothing, whatever the tracker holds by then: the second of two successive
  reads performs no fetch and does not see a remote change made between them.
\<close>

theorem issue_memoized:
  "issue ((snd (issue s))\<lparr>remote := r\<rparr>) = (fst (issue s), (snd (issue s))\<lparr>remote := r\<rparr>)
   \<and> fst (issue s) = Inr (case attr_issue s of None \<Rightarrow> remote s | Some i \<Rightarrow> i)
   \<and> trace (snd (issue s)) = trace s @
        (case attr_issue s of
           None \<Rightarrow> (if attr_jira s then [] else [EvGetJira]) @ [EvIssue (ticket_number s)]
         | Some i \<Rightarrow> [])"
  by (simp add: issue_result split: option.splits)

text \<open>
  C1 as stated fails on \<^const>\<open>folder0\<close>: the issue is read, the tracker's issue changes
  from \<^const>\<open>issue_a\<close> to \<^const>\<open>issue_b\<close>, the issue is read again. The second read
  returns \<^const>\<open>issue_a\<close>, and the whole trace holds one fetch.
\<close>

theorem issue_refetch_counterexample:
  "fst (issue ((snd (issue folder0))\<lparr>remote := issue_b\<rparr>)) = Inr issue_a
   \<and> issue_a \<noteq> issue_b
   \<and> trace (snd (issue ((snd (issue folder0))\<lparr>remote := issue_b\<rparr>)))
       = [EvGetJira, EvIssue ''PROJ-123'']"
  by (simp add: issue_result folder0_def issue_a_def issue_b_def)

section \<open>C4: the \<^verbatim>\<open>cached_issue\<close> property\<close>

text \<open>
  C4, as amended. On an instance with no \<^verbatim>\<open>_cached_issue\<close> yet: when the snapshot file
  cannot be opened (\<^verbatim>\<open>IOError\<close>), the access does not raise; it appends an \<^verbatim>\<open>ERROR\<close>
  entry to the operation log and returns the live issue, which it keeps as
  \<^verbatim>\<open>_cached_issue\<close>. When the file opens and its text is not JSON, the access raises
  \<^verbatim>\<open>ValueError\<close>; when the JSON object lacks \<^verbatim>\<open>options\<close> or \<^verbatim>\<open>raw\<close>, it raises
  \<^verbatim>\<open>KeyError\<close>; in both cases nothing is logged and nothing is fetched.
\<close>

theorem cached_issue_fallback:
  assumes "attr_cached_issue s = None"
  shows "(issue_json s = None \<longrightarrow>
            fst (cached_issue s) = Inr (case attr_issue s of None \<Rightarrow> remote s | Some i \<Rightarrow> i)
          \<and> attr_cached_issue (snd (cached_issue s))
              = Some (case attr_issue s of None \<Rightarrow> remote s | Some i \<Rightarrow> i)
          \<and> log_file (snd (cached_issue s)) =
              log_file s @ [(ERROR, ''Error encountered while loading cached issue!'', ListArgs)])
       \<and> (\<forall>txt. issue_json s = Some (Unparsable txt) \<longrightarrow>
              cached_issue s = (Inl ValueError, s))
       \<and> (\<forall>st. issue_json s = Some (Parsed st) \<longrightarrow> st_options st = None \<or> st_raw st = None \<longrightarrow>
              cached_issue s = (Inl KeyError, s))"
  using assms
  by (auto simp: cached_issue_def bind_def modify_def return_def log_result issue_result
      percent_error_loading INFO_def ERROR_def split: option.splits)

theorem cached_issue_fallback_witness:
  "attr_cached_issue folder0 = None \<and> issue_json folder0 = None
   \<and> fst (cached_issue folder0) = Inr issue_a
   \<and> log_file (snd (cached_issue folder0)) =
       [(ERROR, ''Error encountered while loading cached issue!'', ListArgs)]"
  using cached_issue_fallback [of folder0]
  by (simp add: folder0_def)

text \<open>
  C4 as stated fails on a snapshot file that opens and holds the text \<^verbatim>\<open>{\<close>: reading
  the snapshot fails, and the access raises \<^verbatim>\<open>ValueError\<close> and leaves the folder as it
  was, with no log entry and no fetch.
\<close>

theorem cached_issue_unparsable_counterexample:
  "cached_issue (folder0\<lparr>issue_json := Some (Unparsable ''{'')\<rparr>)
   = (Inl ValueError, folder0\<lparr>issue_json := Some (Unparsable ''{'')\<rparr>)"
  by (simp add: cached_issue_def folder0_def)

section \<open>C9: migrations run in ascending order up to the current version\<close>

lemma percent_error_migration:
  "percent_error ''%s: Migration started'' (TupleArgs [StrArg name]) = None"
  "percent_error ''%s: Migration finished'' (TupleArgs [StrArg name]) = None"
  by (simp_all add: percent_error_def parse_spec_def parse_precision_def parse_length_def
      is_flag_def is_digit_def convert_def)

lemma log_migration:
  "msg = ''%s: Migration started'' \<or> msg = ''%s: Migration finished'' \<Longrightarrow>
   fst (log msg (Some [StrArg name]) lvl s) = Inr ()
   \<and> version_file (snd (log msg (Some [StrArg name]) lvl s)) = version_file s"
  by (auto simp: log_result percent_error_migration issue_result split: option.splits)

lemma version_stored: "version s = (r, s') \<Longrightarrow> s' = s"
  by (auto simp: version_def split: option.splits decoded.splits)

lemma migrate_persists:
  assumes "persists_version n m"
  shows "fst (migrate name m lvl s) = Inr ()
         \<and> version_file (snd (migrate name m lvl s)) = Some (Parsed n)"
proof -
  obtain s1 where l1: "log ''%s: Migration started'' (Some [StrArg name]) lvl s = (Inr (), s1)"
    using log_migration [of "''%s: Migration started''" name lvl s]
    by (cases "log ''%s: Migration started'' (Some [StrArg name]) lvl s") auto
  obtain s2 where m2: "m s1 = (Inr (), s2)" and v2: "version_file s2 = Some (Parsed n)"
    using assms by (cases "m s1") (auto simp: persists_version_def dest: spec [of _ s1])
  obtain s3 where l3: "log ''%s: Migration finished'' (Some [StrArg name]) lvl s2 = (Inr (), s3)"
    and v3: "version_file s3 = version_file s2"
    using log_migration [of "''%s: Migration finished''" name lvl s2]
    by (cases "log ''%s: Migration finished'' (Some [StrArg name]) lvl s2") auto
  show ?thesis
    by (simp add: migrate_def bind_def l1 m2 l3 v3 v2)
qed

lemma run_migrations_loop_done:
  "version_file s = Some (Parsed v) \<Longrightarrow> \<not> v < CURRENT_REPO_VERSION c \<Longrightarrow>
   run_migrations_loop cl c lvl applied s = Some (Inr applied, s)"
  by (subst run_migrations_loop.simps) (simp add: version_def)

text \<open>The loop, by induction on the distance to the current version.\<close>

lemma called_in_order_Nil: "called_in_order cl lvl [] s = (Inr (), s)"
  by (simp add: called_in_order_def return_def)

lemma called_in_order_Cons:
  "migrations cl (migration_name n) = Some m \<Longrightarrow> migrate (migration_name n) m lvl s = (Inr (), s1)
   \<Longrightarrow> called_in_order cl lvl (n # ns) s = called_in_order cl lvl ns s1"
  by (simp add: called_in_order_def migrate_def bind_def)

lemma run_migrations_loop_calls:
  assumes reg: "\<forall>n. v < n \<and> n \<le> CURRENT_REPO_VERSION c \<longrightarrow>
            (\<exists>m. migrations cl (migration_name n) = Some m \<and> persists_version n m)"
    and ver: "fst (version s) = Inr v"
    and k: "k = nat (CURRENT_REPO_VERSION c - v)"
  shows "\<exists>s'. run_migrations_loop cl c lvl applied s
            = Some (Inr (applied @ map migration_name [v + 1..CURRENT_REPO_VERSION c]), s')
          \<and> called_in_order cl lvl [v + 1..CURRENT_REPO_VERSION c] s = (Inr (), s')
          \<and> (v < CURRENT_REPO_VERSION c \<longrightarrow>
               version_file s' = Some (Parsed (CURRENT_REPO_VERSION c)))"
  using assms
proof (induction k arbitrary: v s applied)
  case 0
  then have nl: "\<not> v < CURRENT_REPO_VERSION c" by simp
  from "0.prems"(2) have vs: "version s = (Inr v, s)"
    by (cases "version s") (auto dest: version_stored)
  from nl have e: "[v + 1..CURRENT_REPO_VERSION c] = []" by simp
  have "run_migrations_loop cl c lvl applied s = Some (Inr applied, s)"
    using nl vs by (subst run_migrations_loop.simps) simp
  with nl show ?case
    by (simp add: e called_in_order_Nil)
next
  case (Suc k)
  then have lt: "v < CURRENT_REPO_VERSION c" by simp
  from Suc.prems(2) have vs: "version s = (Inr v, s)"
    by (cases "version s") (auto dest: version_stored)
  from Suc.prems(1) lt obtain m where m: "migrations cl (migration_name (v + 1)) = Some m"
    and pm: "persists_version (v + 1) m"
    by (auto dest: spec [of _ "v + 1"])
  let ?name = "migration_name (v + 1)"
  obtain s3 where mg: "migrate ?name m lvl s = (Inr (), s3)"
    and v3: "version_file s3 = Some (Parsed (v + 1))"
    using migrate_persists [OF pm, of ?name lvl s] by (cases "migrate ?name m lvl s") auto
  have ver3: "fst (version s3) = Inr (v + 1)"
    by (simp add: version_def v3)
  have reg3: "\<forall>n. v + 1 < n \<and> n \<le> CURRENT_REPO_VERSION c \<longrightarrow>
            (\<exists>m. migrations cl (migration_name n) = Some m \<and> persists_version n m)"
    using Suc.prems(1) by auto
  have k3: "k = nat (CURRENT_REPO_VERSION c - (v + 1))"
    using Suc.prems(3) by simp
  from Suc.IH [OF reg3 ver3 k3, of "applied @ [?name]"]
  obtain s' where run: "run_migrations_loop cl c lvl (applied @ [?name]) s3
            = Some (Inr ((applied @ [?name])
                @ map migration_name [v + 1 + 1..CURRENT_REPO_VERSION c]), s')"
    and calls: "called_in_order cl lvl [v + 1 + 1..CURRENT_REPO_VERSION c] s3 = (Inr (), s')"
    and fin: "v + 1 < CURRENT_REPO_VERSION c \<longrightarrow>
               version_file s' = Some (Parsed (CURRENT_REPO_VERSION c))"
    by blast
  have up: "[v + 1..CURRENT_REPO_VERSION c] = (v + 1) # [v + 1 + 1..CURRENT_REPO_VERSION c]"
    using lt by (simp add: upto_rec1)
  have step: "run_migrations_loop cl c lvl applied s
      = run_migrations_loop cl c lvl (applied @ [?name]) s3"
    by (subst run_migrations_loop.simps) (simp add: vs lt m mg)
  have calls': "called_in_order cl lvl [v + 1..CURRENT_REPO_VERSION c] s = (Inr (), s')"
    unfolding up using called_in_order_Cons [OF m mg] calls by simp
  have final: "version_file s' = Some (Parsed (CURRENT_REPO_VERSION c))"
  proof (cases "v + 1 < CURRENT_REPO_VERSION c")
    case True
    with fin show ?thesis by simp
  next
    case False
    with lt have e: "v + 1 = CURRENT_REPO_VERSION c" by simp
    then have "[v + 1 + 1..CURRENT_REPO_VERSION c] = []" by simp
    with calls have "s' = s3" by (simp add: called_in_order_Nil)
    with v3 e show ?thesis by simp
  qed
  show ?case
    using step run up final calls' by auto
qed

text \<open>
  C9, as amended. Let the module hold a migration for every number from \<open>v + 1\<close> to
  \<^verbatim>\<open>CURRENT_REPO_VERSION\<close>, each of which returns with its own number in the version
  marker. On a folder whose stored version is \<open>v < CURRENT_REPO_VERSION\<close>,
  \<^verbatim>\<open>run_migrations()\<close> terminates without raising; it has called exactly the migrations
  \<open>v + 1\<close>, ..., \<^verbatim>\<open>CURRENT_REPO_VERSION\<close>, each once and in ascending order, so that the
  folder is left in the state that these calls, made one after the other, leave; the
  stored version is \<^verbatim>\<open>CURRENT_REPO_VERSION\<close> afterwards; and a second \<^verbatim>\<open>run_migrations()\<close>
  calls no migration and changes nothing.
\<close>

theorem run_migrations_ascending:
  assumes "\<forall>n. v < n \<and> n \<le> CURRENT_REPO_VERSION c \<longrightarrow>
            (\<exists>m. migrations cl (migration_name n) = Some m \<and> persists_version n m)"
    and "fst (version s) = Inr v"
    and "v < CURRENT_REPO_VERSION c"
  shows "\<exists>s'. run_migrations cl c silent s
            = Some (Inr (map migration_name [v + 1..CURRENT_REPO_VERSION c]), s')
          \<and> called_in_order cl (if silent then DEBUG else INFO)
                [v + 1..CURRENT_REPO_VERSION c] s = (Inr (), s')
          \<and> fst (version s') = Inr (CURRENT_REPO_VERSION c)
          \<and> run_migrations cl c silent s' = Some (Inr [], s')"
proof -
  from run_migrations_loop_calls
    [OF assms(1) assms(2) refl, of "if silent then DEBUG else INFO" "[]"]
  obtain s' where run: "run_migrations_loop cl c (if silent then DEBUG else INFO) [] s
            = Some (Inr (map migration_name [v + 1..CURRENT_REPO_VERSION c]), s')"
    and calls: "called_in_order cl (if silent then DEBUG else INFO)
                [v + 1..CURRENT_REPO_VERSION c] s = (Inr (), s')"
    and fin: "version_file s' = Some (Parsed (CURRENT_REPO_VERSION c))"
    using assms(3) by auto
  have again: "run_migrations_loop cl c (if silent then DEBUG else INFO) [] s'
      = Some (Inr [], s')"
    using fin by (intro run_migrations_loop_done) auto
  show ?thesis
    using run calls fin again by (auto simp: run_migrations_def version_def)
qed

lemma migration_names:
  "migration_name 2 = ''migration_0002''" "migration_name 3 = ''migration_0003''"
  by code_simp+

lemma example_migrations_persist:
  "persists_version 2 example_migration_2" "persists_version 3 example_migration_3"
  by (simp_all add: persists_version_def example_migration_2_def example_migration_3_def
      modify_def)

lemma collab_mig_registered:
  "\<forall>n. 1 < n \<and> n \<le> CURRENT_REPO_VERSION constants0 \<longrightarrow>
     (\<exists>m. migrations collab_mig (migration_name n) = Some m \<and> persists_version n m)"
proof (intro allI impI)
  fix n :: int
  assume "1 < n \<and> n \<le> CURRENT_REPO_VERSION constants0"
  then have "n = 2 \<or> n = 3"
    by (auto simp: constants0_def)
  then show "\<exists>m. migrations collab_mig (migration_name n) = Some m \<and> persists_version n m"
    by (auto simp: migration_names collab_mig_def example_migrations_persist)
qed

lemma collab_mig_run:
  "map_option (\<lambda>r. (log_file (snd r), work_files (snd r)))
     (run_migrations collab_mig constants0 False folder0)
   = Some ([(INFO, ''%s: Migration started'', TupleArgs [StrArg ''migration_0002'']),
            (INFO, ''%s: Migration finished'', TupleArgs [StrArg ''migration_0002'']),
            (INFO, ''%s: Migration started'', TupleArgs [StrArg ''migration_0003'']),
            (INFO, ''%s: Migration finished'', TupleArgs [StrArg ''migration_0003''])],
           [(''.jirafs_remote_ignore'', []), (''.jirafs_ignore'', [])])"
  by code_simp

text \<open>The witness: the folder \<^const>\<open>folder0\<close> has no version marker, so its version is 1;
  the module holds the migrations 2 and 3; the current version is 3. The log and the
  working tree show both migrations, the second after the first.\<close>

theorem run_migrations_ascending_witness:
  "fst (version folder0) = Inr 1 \<and> 1 < CURRENT_REPO_VERSION constants0
   \<and> (\<exists>s'. run_migrations collab_mig constants0 False folder0
              = Some (Inr [''migration_0002'', ''migration_0003''], s')
            \<and> called_in_order collab_mig INFO [2, 3] folder0 = (Inr (), s')
            \<and> log_file s' =
                [(INFO, ''%s: Migration started'', TupleArgs [StrArg ''migration_0002'']),
                 (INFO, ''%s: Migration finished'', TupleArgs [StrArg ''migration_0002'']),
                 (INFO, ''%s: Migration started'', TupleArgs [StrArg ''migration_0003'']),
                 (INFO, ''%s: Migration finished'', TupleArgs [StrArg ''migration_0003''])]
            \<and> work_files s' = [(''.jirafs_remote_ignore'', []), (''.jirafs_ignore'', [])]
            \<and> fst (version s') = Inr 3
            \<and> run_migrations collab_mig constants0 False s' = Some (Inr [], s'))"
proof -
  have v: "fst (version folder0) = Inr 1"
    by (simp add: version_def folder0_def)
  have lt: "1 < CURRENT_REPO_VERSION constants0"
    by (simp add: constants0_def)
  have c3: "CURRENT_REPO_VERSION constants0 = 3"
    by (simp add: constants0_def)
  have range: "[1 + 1..CURRENT_REPO_VERSION constants0] = [2, 3]"
    by (simp add: c3 upto_rec1)
  from run_migrations_ascending [OF collab_mig_registered v lt, of False]
  obtain s' where run: "run_migrations collab_mig constants0 False folder0
              = Some (Inr [''migration_0002'', ''migration_0003''], s')"
    and calls: "called_in_order collab_mig INFO [2, 3] folder0 = (Inr (), s')"
    and fin: "fst (version s') = Inr 3"
    and again: "run_migrations collab_mig constants0 False s' = Some (Inr [], s')"
    unfolding range by (auto simp: migration_names c3)
  from collab_mig_run run have
    "log_file s' =
                [(INFO, ''%s: Migration started'', TupleArgs [StrArg ''migration_0002'']),
                 (INFO, ''%s: Migration finished'', TupleArgs [StrArg ''migration_0002'']),
                 (INFO, ''%s: Migration started'', TupleArgs [StrArg ''migration_0003'']),
                 (INFO, ''%s: Migration finished'', TupleArgs [StrArg ''migration_0003''])]"
    "work_files s' = [(''.jirafs_remote_ignore'', []), (''.jirafs_ignore'', [])]"
    by simp_all
  with v lt run calls fin again show ?thesis
    by blast
qed

text \<open>
  C9 as stated fails when the module has no migration for a number on the way: the
  module of \<^const>\<open>collab_gap\<close> holds one migration, \<^verbatim>\<open>migration_0002\<close>, which returns with
  its number in the version marker; the folder is at version 1 and the current version
  is 3; and \<^verbatim>\<open>run_migrations()\<close> raises \<^verbatim>\<open>AttributeError\<close> at the lookup of
  \<^verbatim>\<open>migration_0003\<close> and leaves the stored version at 2.
\<close>

theorem run_migrations_unregistered_counterexample:
  "migrations collab_gap = map_of [(''migration_0002'', example_migration_2)]
   \<and> persists_version 2 example_migration_2
   \<and> fst (version folder0) = Inr 1 \<and> 1 < CURRENT_REPO_VERSION constants0
   \<and> map_option fst (run_migrations collab_gap constants0 False folder0)
       = Some (Inl AttributeError)
   \<and> map_option (version_file \<circ> snd) (run_migrations collab_gap constants0 False folder0)
       = Some (Some (Parsed 2))"
proof -
  have "map_option fst (run_migrations collab_gap constants0 False folder0)
       = Some (Inl AttributeError)"
    by code_simp
  moreover have
    "map_option (version_file \<circ> snd) (run_migrations collab_gap constants0 False folder0)
       = Some (Some (Parsed 2))"
    by code_simp
  ultimately show ?thesis
    by (simp add: collab_gap_def example_migrations_persist version_def folder0_def
        constants0_def)
qed

section \<open>Results and frames of the methods\<close>

lemma keepsD: "keeps f m \<Longrightarrow> m s = (r, s') \<Longrightarrow> f s' = f s"
  by (auto simp: keeps_def dest: spec [of _ s])

lemma keeps_return: "keeps f (return x)"
  by (simp add: keeps_def return_def)

lemma keeps_raise: "keeps f (raise e)"
  by (simp add: keeps_def raise_def)

lemma keeps_bind: "keeps f m \<Longrightarrow> (\<And>x. keeps f (k x)) \<Longrightarrow> keeps f (bind m k)"
  by (auto simp: keeps_def bind_def split: prod.splits sum.splits)
     (metis snd_conv)+

lemma keeps_case_option:
  "keeps f a \<Longrightarrow> (\<And>x. keeps f (b x)) \<Longrightarrow> keeps f (case x of None \<Rightarrow> a | Some y \<Rightarrow> b y)"
  by (cases x) auto

lemma keeps_log:
  "keeps work_files (log m a l)" "keeps home_files (log m a l)" "keeps git_answer (log m a l)"
  "keeps shadow (log m a l)" "keeps remote (log m a l)"
  by (simp_all add: keeps_def log_result issue_result split: option.splits)

lemma keeps_git:
  "work_files (snd (git sh args s)) = work_files s"
  "home_files (snd (git sh args s)) = home_files s"
  "git_answer (snd (git sh args s)) = git_answer s"
  "remote (snd (git sh args s)) = remote s"
  by (simp_all add: git_def Let_def split: option.splits)

lemma keeps_run_git_command:
  "keeps work_files (run_git_command args fok sh)"
  "keeps home_files (run_git_command args fok sh)"
  "keeps git_answer (run_git_command args fok sh)"
  "keeps remote (run_git_command args fok sh)"
  unfolding run_git_command_def
  by (rule keeps_bind, rule keeps_log,
      simp add: keeps_def split: prod.splits option.splits,
      metis keeps_git snd_conv)+

lemma run_git_command_work:
  assumes "run_git_command args fok False s = (r, s')"
  shows "r = (case git_answer s False args of
                Some out \<Rightarrow> Inr (Some (strip out))
              | None \<Rightarrow> if fok then Inr None else Inl CalledProcessError)"
proof -
  have pe: "percent_error ''Executing git command %s'' (TupleArgs [ObjArg]) = None"
    by (simp add: percent_error_def parse_spec_def parse_precision_def parse_length_def
      is_flag_def is_digit_def convert_def)
  show ?thesis
    using assms
    by (auto simp: run_git_command_def bind_def log_result pe DEBUG_def INFO_def git_def Let_def
        split: option.splits if_splits)
qed


lemma keeps_get_ignore_globs: "keeps f (get_ignore_globs c which)"
  by (simp add: keeps_def get_ignore_globs_def)

lemma keeps_get_locally_changed:
  "keeps work_files (get_locally_changed cl c)"
  "keeps git_answer (get_locally_changed cl c)"
  unfolding get_locally_changed_def
  by (intro keeps_bind keeps_get_ignore_globs keeps_run_git_command keeps_case_option
        keeps_raise, simp add: keeps_def)+

lemma get_locally_changed_result:
  assumes "get_locally_changed cl c s = (Inr changed, s')"
  shows "\<exists>new_text modified_text.
           git_answer s False [''ls-files'', ''-o''] = Some new_text
         \<and> git_answer s False [''ls-files'', ''-m''] = Some modified_text
         \<and> changed = filter (\<lambda>name.
               \<not> file_matches_globs cl name
                   (builtin_globs c @ globs_of_file (work_files s) (IGNORE_FILE c)
                    @ globs_of_file (home_files s) (IGNORE_FILE c))
               \<and> map_of (work_files s) name \<noteq> None
               \<and> \<not> startswith name ''.'')
             (filter (\<lambda>name. name \<noteq> [])
                (split_on LF (strip new_text) @ split_on LF (strip modified_text)))"
proof -
  from assms obtain nt s1 mt s2
    where o: "run_git_command [''ls-files'', ''-o''] True False s = (Inr (Some nt), s1)"
      and m: "run_git_command [''ls-files'', ''-m''] True False s1 = (Inr (Some mt), s2)"
      and ch: "changed = filter (\<lambda>name.
               \<not> file_matches_globs cl name
                   (builtin_globs c @ globs_of_file (work_files s) (IGNORE_FILE c)
                    @ globs_of_file (home_files s) (IGNORE_FILE c))
               \<and> map_of (work_files s2) name \<noteq> None
               \<and> \<not> startswith name ''.'')
             (filter (\<lambda>name. name \<noteq> []) (split_on LF nt @ split_on LF mt))"
    by (auto simp: get_locally_changed_def bind_Inr get_ignore_globs_def raise_def
        split: option.splits)
  have g1: "git_answer s1 = git_answer s" and w1: "work_files s1 = work_files s"
    using keepsD [OF keeps_run_git_command(3) o] keepsD [OF keeps_run_git_command(1) o]
    by simp_all
  have w2: "work_files s2 = work_files s"
    using keepsD [OF keeps_run_git_command(1) m] w1 by simp
  from run_git_command_work [OF o] obtain new_text
    where a1: "git_answer s False [''ls-files'', ''-o''] = Some new_text" and n: "nt = strip new_text"
    by (auto split: option.splits)
  from run_git_command_work [OF m] g1 obtain modified_text
    where a2: "git_answer s False [''ls-files'', ''-m''] = Some modified_text"
      and mm: "mt = strip modified_text"
    by (auto split: option.splits)
  show ?thesis
    using a1 a2 ch n mm w2 by simp
qed

lemma get_remotely_changed_attachments:
  assumes "get_remotely_changed cl c s = (Inr changed, s')"
  shows "\<exists>metadata i.
           get_remote_file_metadata s = (Inr metadata, s) \<and> fst (issue s) = Inr i
         \<and> changed = map att_filename
             (filter (\<lambda>a. \<not> file_matches_globs cl (att_filename a)
                              (builtin_globs c @ globs_of_file (work_files s) (REMOTE_IGNORE_FILE c)
                               @ globs_of_file (home_files s) (REMOTE_IGNORE_FILE c))
                         \<and> map_of metadata (att_filename a) \<noteq> Some (att_created a))
                (raw_attachment (raw i)))"
proof -
  from assms obtain metadata s1 i s2
    where md: "get_remote_file_metadata s = (Inr metadata, s1)"
      and i: "issue s1 = (Inr i, s2)"
      and ch: "changed = map att_filename
             (filter (\<lambda>a. \<not> file_matches_globs cl (att_filename a)
                              (builtin_globs c @ globs_of_file (work_files s) (REMOTE_IGNORE_FILE c)
                               @ globs_of_file (home_files s) (REMOTE_IGNORE_FILE c))
                         \<and> map_of metadata (att_filename a) \<noteq> Some (att_created a))
                (raw_attachment (raw i)))"
    by (auto simp: get_remotely_changed_def bind_Inr get_ignore_globs_def return_def)
  have "s1 = s"
    using md by (auto simp: get_remote_file_metadata_def split: option.splits decoded.splits)
  with md i ch show ?thesis by auto
qed

section \<open>C5: the field differences of \<^verbatim>\<open>status()\<close>\<close>

lemma fold_differing:
  "distinct (map fst xs) \<Longrightarrow>
   map_of (fold (\<lambda>(k, v) differing.
                     if dict_get loc k \<noteq> v
                     then AList.update k (v, dict_get loc k) differing
                     else differing) xs acc) k
   = (case map_of xs k of
        None \<Rightarrow> map_of acc k
      | Some v \<Rightarrow> if dict_get loc k \<noteq> v then Some (v, dict_get loc k) else map_of acc k)"
proof (induction xs arbitrary: acc)
  case Nil
  then show ?case by simp
next
  case (Cons x xs)
  obtain k' v' where x: "x = (k', v')" by (cases x)
  from Cons.prems have d: "distinct (map fst xs)" and nin: "k' \<notin> fst ` set xs"
    by (auto simp: x)
  from nin have none: "map_of xs k' = None"
    by (simp add: map_of_eq_None_iff)
  show ?case
    using Cons.IH [OF d] none
    by (auto simp: x update_conv' split: option.splits)
qed

lemma get_local_differing_fields_result:
  assumes "get_local_differing_fields cl s = (Inr differing, s')"
  shows "\<exists>rev. git_answer s False [''merge-base'', ''master'', ''jira''] = Some rev
     \<and> (\<forall>k. map_of differing k =
          (case map_of (rst_fields_of_revision cl (Some (strip rev))) k of
             None \<Rightarrow> None
           | Some v \<Rightarrow>
               if dict_get (rst_fields_of_path cl (work_files s)) k = v then None
               else Some (v, dict_get (rst_fields_of_path cl (work_files s)) k)))"
proof -
  from assms obtain revision s1 where
    mb: "run_git_command [''merge-base'', ''master'', ''jira''] False False s = (Inr revision, s1)"
    and d: "differing = fold (\<lambda>(k, v) differing.
                     if dict_get (rst_fields_of_path cl (work_files s)) k \<noteq> v
                     then AList.update k (v, dict_get (rst_fields_of_path cl (work_files s)) k) differing
                     else differing)
               (AList.clearjunk (rst_fields_of_revision cl revision)) []"
    by (auto simp: get_local_differing_fields_def get_local_fields_def get_original_values_def
        git_merge_base_def bind_Inr return_def)
  from run_git_command_work [OF mb] obtain rev where
    rev: "git_answer s False [''merge-base'', ''master'', ''jira''] = Some rev"
    and r: "revision = Some (strip rev)"
    by (auto split: option.splits)
  show ?thesis
    unfolding d r
    by (rule exI [of _ rev])
       (auto simp: rev fold_differing distinct_clearjunk map_of_clearjunk split: option.splits)
qed

text \<open>
  C5. When \<^verbatim>\<open>status()\<close> returns, the merge base was found, and \<^verbatim>\<open>local_differs\<close> reads at
  every field name \<open>k\<close> as follows. If \<open>k\<close> is in the original snapshot (the fields of the
  merge-base revision) with value \<open>a\<close> and the working tree's value \<^verbatim>\<open>local_fields.get(k)\<close>
  is another value \<open>b\<close>, the entry is \<open>(a, b)\<close>; if the local value equals \<open>a\<close>, there is no
  entry for \<open>k\<close>; and there is no entry for a field that is not in the original snapshot.
\<close>

theorem status_local_differs:
  assumes "status cl c s = (Inr st, s')"
  shows "\<exists>rev. git_answer s False [''merge-base'', ''master'', ''jira''] = Some rev
     \<and> (\<forall>k. map_of (local_differs st) k =
          (case map_of (rst_fields_of_revision cl (Some (strip rev))) k of
             None \<Rightarrow> None
           | Some a \<Rightarrow>
               if dict_get (rst_fields_of_path cl (work_files s)) k = a then None
               else Some (a, dict_get (rst_fields_of_path cl (work_files s)) k)))"
proof -
  from assms obtain s1 s2 where
    lc: "get_locally_changed cl c s = (Inr (to_upload st), s1)"
    and df: "get_local_differing_fields cl s1 = (Inr (local_differs st), s2)"
    by (auto simp: status_def bind_Inr return_def)
  have eqs: "work_files s1 = work_files s" "git_answer s1 = git_answer s"
    using keeps_get_locally_changed [of cl c] lc by (auto dest: keepsD)
  show ?thesis
    using get_local_differing_fields_result [OF df] unfolding eqs .
qed

text \<open>The witness: \<^verbatim>\<open>summary\<close> was \<^verbatim>\<open>A\<close> and is \<^verbatim>\<open>B\<close>, \<^verbatim>\<open>status\<close> is unchanged, and \<^verbatim>\<open>labels\<close>
  is in the working tree only.\<close>

lemma status0: "fst (status collab1 constants0 folder0)
   = Inr \<lparr>to_upload = [], local_differs = [(''summary'', (PyStr ''A'', PyStr ''B''))], new_comment = []\<rparr>"
  by code_simp

theorem status_local_differs_witness:
  "\<exists>st s'. status collab1 constants0 folder0 = (Inr st, s')
     \<and> map_of (local_differs st) ''summary'' = Some (PyStr ''A'', PyStr ''B'')
     \<and> map_of (local_differs st) ''status'' = None
     \<and> map_of (local_differs st) ''labels'' = None"
proof -
  obtain st s' where st: "status collab1 constants0 folder0 = (Inr st, s')"
    using status0 by (cases "status collab1 constants0 folder0") auto
  from status_local_differs [OF st] obtain rev where
    diff: "\<And>k. map_of (local_differs st) k =
          (case map_of (rst_fields_of_revision collab1 (Some (strip rev))) k of
             None \<Rightarrow> None
           | Some a \<Rightarrow>
               if dict_get (rst_fields_of_path collab1 (work_files folder0)) k = a then None
               else Some (a, dict_get (rst_fields_of_path collab1 (work_files folder0)) k))"
    by blast
  have "map_of (local_differs st) ''summary'' = Some (PyStr ''A'', PyStr ''B'')"
    "map_of (local_differs st) ''status'' = None"
    "map_of (local_differs st) ''labels'' = None"
    by (simp_all add: diff collab1_def dict_get_def)
  with st show ?thesis by blast
qed

section \<open>C6: ignored files\<close>

lemma status_to_upload:
  assumes "status cl c s = (Inr st, s')"
  shows "\<exists>s1. get_locally_changed cl c s = (Inr (to_upload st), s1)"
  using assms by (auto simp: status_def bind_Inr return_def)

text \<open>
  C6, as amended. Each of the two detections has its own three ignore sources, and a
  filename is excluded by a glob of these and by no other glob.
  When \<^verbatim>\<open>status()\<close> returns, both \<^verbatim>\<open>git ls-files -o\<close> and \<^verbatim>\<open>git ls-files -m\<close> have succeeded
  and \<^verbatim>\<open>to_upload\<close> holds exactly the filenames that one of the two lists, that are not
  empty, that name a file of the folder, that do not start with a dot, and that match
  no glob of the built-in set, of the in-folder file \<^verbatim>\<open>IGNORE_FILE\<close> or of the user-global
  file \<^verbatim>\<open>IGNORE_FILE\<close>. When \<^verbatim>\<open>get_remotely_changed()\<close> returns, the remotely changed
  attachments are exactly the filenames of the attachments of the issue whose creation
  time is not the one recorded for the filename in the remote file metadata, and that
  match no glob of the built-in set, of the in-folder file \<^verbatim>\<open>REMOTE_IGNORE_FILE\<close> or of
  the user-global file \<^verbatim>\<open>REMOTE_IGNORE_FILE\<close>. So a filename that matches a glob of one of
  the three sources of a detection is excluded from it, whichever source supplied the
  glob; a glob that is only in \<^verbatim>\<open>IGNORE_FILE\<close> excludes no attachment from the remotely
  changed ones, and a glob that is only in \<^verbatim>\<open>REMOTE_IGNORE_FILE\<close> excludes no file from
  \<^verbatim>\<open>to_upload\<close>.
\<close>

theorem ignored_files_excluded:
  "(\<forall>st s'. status cl c s = (Inr st, s') \<longrightarrow>
      (\<exists>new_text modified_text.
          git_answer s False [''ls-files'', ''-o''] = Some new_text
        \<and> git_answer s False [''ls-files'', ''-m''] = Some modified_text
        \<and> (\<forall>name. name \<in> set (to_upload st) \<longleftrightarrow>
              name \<in> set (split_on LF (strip new_text) @ split_on LF (strip modified_text))
            \<and> name \<noteq> [] \<and> map_of (work_files s) name \<noteq> None \<and> \<not> startswith name ''.''
            \<and> \<not> (\<exists>glob \<in> set (builtin_globs c)
                         \<union> set (globs_of_file (work_files s) (IGNORE_FILE c))
                         \<union> set (globs_of_file (home_files s) (IGNORE_FILE c)).
                     fnmatch cl name glob))))
   \<and> (\<forall>changed s'. get_remotely_changed cl c s = (Inr changed, s') \<longrightarrow>
      (\<exists>metadata i.
          get_remote_file_metadata s = (Inr metadata, s) \<and> fst (issue s) = Inr i
        \<and> (\<forall>name. name \<in> set changed \<longleftrightarrow>
              (\<exists>a \<in> set (raw_attachment (raw i)).
                  att_filename a = name \<and> map_of metadata name \<noteq> Some (att_created a))
            \<and> \<not> (\<exists>glob \<in> set (builtin_globs c)
                         \<union> set (globs_of_file (work_files s) (REMOTE_IGNORE_FILE c))
                         \<union> set (globs_of_file (home_files s) (REMOTE_IGNORE_FILE c)).
                     fnmatch cl name glob))))"
proof (intro conjI allI impI)
  fix st s'
  assume st: "status cl c s = (Inr st, s')"
  from status_to_upload [OF st] obtain s1
    where lc: "get_locally_changed cl c s = (Inr (to_upload st), s1)" ..
  from get_locally_changed_result [OF lc] obtain new_text modified_text
    where a1: "git_answer s False [''ls-files'', ''-o''] = Some new_text"
      and a2: "git_answer s False [''ls-files'', ''-m''] = Some modified_text"
      and up: "to_upload st = filter (\<lambda>name.
               \<not> file_matches_globs cl name
                   (builtin_globs c @ globs_of_file (work_files s) (IGNORE_FILE c)
                    @ globs_of_file (home_files s) (IGNORE_FILE c))
               \<and> map_of (work_files s) name \<noteq> None
               \<and> \<not> startswith name ''.'')
             (filter (\<lambda>name. name \<noteq> [])
                (split_on LF (strip new_text) @ split_on LF (strip modified_text)))"
    by blast
  have "\<forall>name. name \<in> set (to_upload st) \<longleftrightarrow>
              name \<in> set (split_on LF (strip new_text) @ split_on LF (strip modified_text))
            \<and> name \<noteq> [] \<and> map_of (work_files s) name \<noteq> None \<and> \<not> startswith name ''.''
            \<and> \<not> (\<exists>glob \<in> set (builtin_globs c)
                         \<union> set (globs_of_file (work_files s) (IGNORE_FILE c))
                         \<union> set (globs_of_file (home_files s) (IGNORE_FILE c)).
                     fnmatch cl name glob)"
    unfolding up by (auto simp: file_matches_globs_def list_ex_iff)
  with a1 a2 show "\<exists>new_text modified_text.
          git_answer s False [''ls-files'', ''-o''] = Some new_text
        \<and> git_answer s False [''ls-files'', ''-m''] = Some modified_text
        \<and> (\<forall>name. name \<in> set (to_upload st) \<longleftrightarrow>
              name \<in> set (split_on LF (strip new_text) @ split_on LF (strip modified_text))
            \<and> name \<noteq> [] \<and> map_of (work_files s) name \<noteq> None \<and> \<not> startswith name ''.''
            \<and> \<not> (\<exists>glob \<in> set (builtin_globs c)
                         \<union> set (globs_of_file (work_files s) (IGNORE_FILE c))
                         \<union> set (globs_of_file (home_files s) (IGNORE_FILE c)).
                     fnmatch cl name glob))"
    by blast
next
  fix changed s'
  assume rc: "get_remotely_changed cl c s = (Inr changed, s')"
  from get_remotely_changed_attachments [OF rc] obtain metadata i
    where md: "get_remote_file_metadata s = (Inr metadata, s)" and i: "fst (issue s) = Inr i"
      and ch: "changed = map att_filename
             (filter (\<lambda>a. \<not> file_matches_globs cl (att_filename a)
                              (builtin_globs c @ globs_of_file (work_files s) (REMOTE_IGNORE_FILE c)
                               @ globs_of_file (home_files s) (REMOTE_IGNORE_FILE c))
                         \<and> map_of metadata (att_filename a) \<noteq> Some (att_created a))
                (raw_attachment (raw i)))"
    by blast
  have "\<forall>name. name \<in> set changed \<longleftrightarrow>
              (\<exists>a \<in> set (raw_attachment (raw i)).
                  att_filename a = name \<and> map_of metadata name \<noteq> Some (att_created a))
            \<and> \<not> (\<exists>glob \<in> set (builtin_globs c)
                         \<union> set (globs_of_file (work_files s) (REMOTE_IGNORE_FILE c))
                         \<union> set (globs_of_file (home_files s) (REMOTE_IGNORE_FILE c)).
                     fnmatch cl name glob)"
    unfolding ch by (auto simp: file_matches_globs_def list_ex_iff)
  with md i show "\<exists>metadata i.
          get_remote_file_metadata s = (Inr metadata, s) \<and> fst (issue s) = Inr i
        \<and> (\<forall>name. name \<in> set changed \<longleftrightarrow>
              (\<exists>a \<in> set (raw_attachment (raw i)).
                  att_filename a = name \<and> map_of metadata name \<noteq> Some (att_created a))
            \<and> \<not> (\<exists>glob \<in> set (builtin_globs c)
                         \<union> set (globs_of_file (work_files s) (REMOTE_IGNORE_FILE c))
                         \<union> set (globs_of_file (home_files s) (REMOTE_IGNORE_FILE c)).
                     fnmatch cl name glob))"
    by blast
qed

lemma status_ignore: "fst (status collab0 constants0 folder_ignore)
   = Inr \<lparr>to_upload = [''notes.txt''], local_differs = [], new_comment = []\<rparr>"
  by code_simp

lemma remote_ignore: "fst (get_remotely_changed collab0 constants0 folder_ignore) = Inr [''a.tmp'']"
  by code_simp

lemma folder_ignore_listed:
  "git_answer folder_ignore False [''ls-files'', ''-o''] = Some (''a.tmp'' @ [LF] @ ''notes.txt'' @ [LF])"
  "git_answer folder_ignore False [''ls-files'', ''-m''] = Some []"
  by (simp_all add: folder_ignore_def)

lemma folder_ignore_local:
  "\<exists>glob \<in> set (builtin_globs constants0)
       \<union> set (globs_of_file (work_files folder_ignore) (IGNORE_FILE constants0))
       \<union> set (globs_of_file (home_files folder_ignore) (IGNORE_FILE constants0)).
     fnmatch collab0 ''a.tmp'' glob"
  "''notes.txt'' \<in> set (split_on LF (strip (''a.tmp'' @ [LF] @ ''notes.txt'' @ [LF]))
                        @ split_on LF (strip []))
   \<and> ''notes.txt'' \<noteq> [] \<and> map_of (work_files folder_ignore) ''notes.txt'' \<noteq> None
   \<and> \<not> startswith ''notes.txt'' ''.''
   \<and> \<not> (\<exists>glob \<in> set (builtin_globs constants0)
       \<union> set (globs_of_file (work_files folder_ignore) (IGNORE_FILE constants0))
       \<union> set (globs_of_file (home_files folder_ignore) (IGNORE_FILE constants0)).
     fnmatch collab0 ''notes.txt'' glob)"
  by code_simp+

lemma folder_ignore_remote:
  "get_remote_file_metadata folder_ignore = (Inr md, s1) \<Longrightarrow> md = []"
  "fst (issue folder_ignore) = Inr i \<Longrightarrow> raw_attachment (raw i) =
      [\<lparr>att_filename = ''a.tmp'', att_created = ''T1'', att_content = ''x''\<rparr>,
       \<lparr>att_filename = ''b.log'', att_created = ''T2'', att_content = ''y''\<rparr>]"
  "\<exists>glob \<in> set (builtin_globs constants0)
       \<union> set (globs_of_file (work_files folder_ignore) (REMOTE_IGNORE_FILE constants0))
       \<union> set (globs_of_file (home_files folder_ignore) (REMOTE_IGNORE_FILE constants0)).
     fnmatch collab0 ''b.log'' glob"
  "\<not> (\<exists>glob \<in> set (builtin_globs constants0)
       \<union> set (globs_of_file (work_files folder_ignore) (REMOTE_IGNORE_FILE constants0))
       \<union> set (globs_of_file (home_files folder_ignore) (REMOTE_IGNORE_FILE constants0)).
     fnmatch collab0 ''a.tmp'' glob)"
proof -
  have "get_remote_file_metadata folder_ignore = (Inr [], folder_ignore)"
    by (simp add: get_remote_file_metadata_def folder_ignore_def folder0_def empty_tree_def)
  then show "get_remote_file_metadata folder_ignore = (Inr md, s1) \<Longrightarrow> md = []" by simp
  have "fst (issue folder_ignore) = Inr (remote folder_ignore)"
    by (simp add: issue_result folder_ignore_def folder0_def)
  then show "fst (issue folder_ignore) = Inr i \<Longrightarrow> raw_attachment (raw i) =
      [\<lparr>att_filename = ''a.tmp'', att_created = ''T1'', att_content = ''x''\<rparr>,
       \<lparr>att_filename = ''b.log'', att_created = ''T2'', att_content = ''y''\<rparr>]"
    by (auto simp: folder_ignore_def)
  show "\<exists>glob \<in> set (builtin_globs constants0)
       \<union> set (globs_of_file (work_files folder_ignore) (REMOTE_IGNORE_FILE constants0))
       \<union> set (globs_of_file (home_files folder_ignore) (REMOTE_IGNORE_FILE constants0)).
     fnmatch collab0 ''b.log'' glob"
    by code_simp
  show "\<not> (\<exists>glob \<in> set (builtin_globs constants0)
       \<union> set (globs_of_file (work_files folder_ignore) (REMOTE_IGNORE_FILE constants0))
       \<union> set (globs_of_file (home_files folder_ignore) (REMOTE_IGNORE_FILE constants0)).
     fnmatch collab0 ''a.tmp'' glob)"
    by code_simp
qed

text \<open>The witness: in \<^const>\<open>folder_ignore\<close> the in-folder \<^verbatim>\<open>.jirafs_ignore\<close> holds \<^verbatim>\<open>*.tmp\<close> and
  the user-global \<^verbatim>\<open>.jirafs_remote_ignore\<close> holds \<^verbatim>\<open>*.log\<close>. The new file \<^verbatim>\<open>a.tmp\<close> is not
  to be uploaded and \<^verbatim>\<open>notes.txt\<close> is; the attachment \<^verbatim>\<open>b.log\<close> is not remotely changed
  and the attachment \<^verbatim>\<open>a.tmp\<close> is.\<close>

theorem ignored_files_excluded_witness:
  "fnmatch collab0 ''a.tmp'' ''*.tmp''
   \<and> ''*.tmp'' \<in> set (globs_of_file (work_files folder_ignore) (IGNORE_FILE constants0))
   \<and> (\<exists>st s'. status collab0 constants0 folder_ignore = (Inr st, s')
         \<and> ''a.tmp'' \<notin> set (to_upload st) \<and> ''notes.txt'' \<in> set (to_upload st))
   \<and> fnmatch collab0 ''b.log'' ''*.log''
   \<and> ''*.log'' \<in> set (globs_of_file (home_files folder_ignore) (REMOTE_IGNORE_FILE constants0))
   \<and> (\<exists>changed s'. get_remotely_changed collab0 constants0 folder_ignore = (Inr changed, s')
         \<and> ''b.log'' \<notin> set changed \<and> ''a.tmp'' \<in> set changed)"
proof -
  have m1: "fnmatch collab0 ''a.tmp'' ''*.tmp''" by code_simp
  have g1: "''*.tmp'' \<in> set (globs_of_file (work_files folder_ignore) (IGNORE_FILE constants0))"
    by code_simp
  have m2: "fnmatch collab0 ''b.log'' ''*.log''" by code_simp
  have g2: "''*.log'' \<in> set (globs_of_file (home_files folder_ignore) (REMOTE_IGNORE_FILE constants0))"
    by code_simp
  obtain st s' where st: "status collab0 constants0 folder_ignore = (Inr st, s')"
    using status_ignore by (cases "status collab0 constants0 folder_ignore") auto
  obtain changed s'' where ch: "get_remotely_changed collab0 constants0 folder_ignore = (Inr changed, s'')"
    using remote_ignore by (cases "get_remotely_changed collab0 constants0 folder_ignore") auto
  from ignored_files_excluded [of collab0 constants0 folder_ignore] st have up: "\<And>name. name \<in> set (to_upload st) \<longleftrightarrow>
        name \<in> set (split_on LF (strip (''a.tmp'' @ [LF] @ ''notes.txt'' @ [LF]))
                     @ split_on LF (strip []))
      \<and> name \<noteq> [] \<and> map_of (work_files folder_ignore) name \<noteq> None \<and> \<not> startswith name ''.''
      \<and> \<not> (\<exists>glob \<in> set (builtin_globs constants0)
               \<union> set (globs_of_file (work_files folder_ignore) (IGNORE_FILE constants0))
               \<union> set (globs_of_file (home_files folder_ignore) (IGNORE_FILE constants0)).
             fnmatch collab0 name glob)"
    unfolding folder_ignore_listed by blast
  have l: "''a.tmp'' \<notin> set (to_upload st) \<and> ''notes.txt'' \<in> set (to_upload st)"
    using up [of "''a.tmp''"] up [of "''notes.txt''"] folder_ignore_local by blast
  from ignored_files_excluded [of collab0 constants0 folder_ignore] ch obtain metadata i
    where md: "get_remote_file_metadata folder_ignore = (Inr metadata, folder_ignore)"
      and i: "fst (issue folder_ignore) = Inr i"
      and rc: "\<And>name. name \<in> set changed \<longleftrightarrow>
              (\<exists>a \<in> set (raw_attachment (raw i)).
                  att_filename a = name \<and> map_of metadata name \<noteq> Some (att_created a))
            \<and> \<not> (\<exists>glob \<in> set (builtin_globs constants0)
                 \<union> set (globs_of_file (work_files folder_ignore) (REMOTE_IGNORE_FILE constants0))
                 \<union> set (globs_of_file (home_files folder_ignore) (REMOTE_IGNORE_FILE constants0)).
                     fnmatch collab0 name glob)"
    by blast
  have r: "''b.log'' \<notin> set changed \<and> ''a.tmp'' \<in> set changed"
    using rc [of "''b.log''"] rc [of "''a.tmp''"] folder_ignore_remote(3,4)
    by (simp add: folder_ignore_remote(1) [OF md] folder_ignore_remote(2) [OF i])
  show ?thesis
    using m1 g1 m2 g2 st ch l r by blast
qed

text \<open>
  C6 as stated fails on \<^const>\<open>folder_ignore\<close>: the glob \<^verbatim>\<open>*.tmp\<close> comes from the in-folder
  ignore file \<^verbatim>\<open>.jirafs_ignore\<close> and matches \<^verbatim>\<open>a.tmp\<close>, and the attachment \<^verbatim>\<open>a.tmp\<close> is
  among the remotely changed ones, because remote-change detection reads
  \<^verbatim>\<open>.jirafs_remote_ignore\<close>.
\<close>

theorem ignore_file_kind_counterexample:
  "''*.tmp'' \<in> set (globs_of_file (work_files folder_ignore) (IGNORE_FILE constants0))
   \<and> fnmatch collab0 ''a.tmp'' ''*.tmp''
   \<and> fst (get_remotely_changed collab0 constants0 folder_ignore) = Inr [''a.tmp'']"
  by code_simp

section \<open>What \<^verbatim>\<open>fetch\<close> does to the shadow repository\<close>

lemma live_simps [simp]:
  "live (s\<lparr>shadow := sh\<rparr>) = live s"
  "live (s\<lparr>trace := tr\<rparr>) = live s"
  "live (s\<lparr>log_file := lg\<rparr>) = live s"
  "live (s\<lparr>stdout := out\<rparr>) = live s"
  "live (s\<lparr>issue_json := js\<rparr>) = live s"
  "live (s\<lparr>origin_jira := oj\<rparr>) = live s"
  "live (s\<lparr>work_files := wfs\<rparr>) = live s"
  "live (s\<lparr>attr_jira := aj\<rparr>) = live s"
  "live (s\<lparr>attr_cached_issue := ci\<rparr>) = live s"
  "live (s\<lparr>uploads := n\<rparr>) = live s"
  "live (s\<lparr>version_file := vf\<rparr>) = live s"
  by (simp_all add: live_def split: option.splits)

lemma issue_live:
  "fst (issue s) = Inr (live s)" "attr_issue (snd (issue s)) = Some (live s)"
  "live (snd (issue s)) = live s"
  by (simp_all add: issue_result live_def split: option.splits)

lemma issue_parts [simp]:
  "remote (snd (issue s)) = remote s"
  "work_files (snd (issue s)) = work_files s"
  "home_files (snd (issue s)) = home_files s"
  "git_answer (snd (issue s)) = git_answer s"
  "shadow (snd (issue s)) = shadow s"
  "version_file (snd (issue s)) = version_file s"
  "log_file (snd (issue s)) = log_file s"
  "stdout (snd (issue s)) = stdout s"
  "issue_json (snd (issue s)) = issue_json s"
  "origin_jira (snd (issue s)) = origin_jira s"
  "uploads (snd (issue s)) = uploads s"
  "next_created (snd (issue s)) = next_created s"
  by (simp_all add: issue_result split: option.splits)

lemma keeps_issue: "keeps env issue" "keeps shadow issue"
  by (simp_all add: keeps_def env_def issue_live)

lemma keeps_modify: "(\<And>s. f (g s) = f s) \<Longrightarrow> keeps f (modify g)"
  by (simp add: keeps_def modify_def)

lemma keeps_if: "keeps f a \<Longrightarrow> keeps f b \<Longrightarrow> keeps f (if c then a else b)"
  by simp

lemma keeps_log_env: "keeps env (log m a l)"
  by (simp add: keeps_def env_def log_result issue_live split: option.splits)

lemma keeps_fold_action:
  "(\<And>x acc. keeps f (body x acc)) \<Longrightarrow> keeps f (fold_action xs body acc)"
  by (induction xs arbitrary: acc) (auto intro: keeps_return keeps_bind)

lemma keeps_foreach:
  "(\<And>x. keeps f (body x)) \<Longrightarrow> keeps f (foreach xs body)"
  by (induction xs) (auto intro: keeps_return keeps_bind)

lemma keeps_write_shadow: "keeps env (write_shadow name txt)"
  by (simp add: write_shadow_def keeps_def modify_def env_def)

lemma percent_error_download:
  "percent_error ''Download file \"%s\"'' (TupleArgs [StrArg name]) = None"
  by (simp add: percent_error_def parse_spec_def parse_precision_def parse_length_def
      is_flag_def is_digit_def convert_def)

lemma keeps_download: "keeps env (download a fm)"
  unfolding download_def
  by (intro keeps_bind keeps_write_shadow keeps_log_env keeps_return keeps_modify)
     (simp add: env_def)

lemma download_result:
  "fst (download a fm s) = Inr (AList.update (att_filename a) (att_created a) fm)"
  "shadow (snd (download a fm s))
     = put_file (att_filename a) (att_content a) (put_file (att_filename a) [] (shadow s))"
  by (simp_all add: download_def bind_def write_shadow_def modify_def return_def log_result
      percent_error_download issue_result INFO_def split: option.splits)

lemma bind_ok: "fst (m s) = Inr x \<Longrightarrow> bind m k s = k x (snd (m s))"
  by (cases "m s") (simp add: bind_def)

lemma inner_loop:
  "fst (fold_action atts (\<lambda>a m. if att_filename a = name then download a m else return m) fm s)
     = Inr (meta_inner name atts fm)
   \<and> shadow (snd (fold_action atts
         (\<lambda>a m. if att_filename a = name then download a m else return m) fm s))
     = sh_inner name atts (shadow s)"
proof (induction atts arbitrary: fm s)
  case Nil
  then show ?case by (simp add: return_def meta_inner_def sh_inner_def)
next
  case (Cons a atts)
  show ?case
  proof (cases "att_filename a = name")
    case True
    have f: "fst (download a fm s) = Inr (AList.update name (att_created a) fm)"
      using download_result(1) [of a fm s] True by simp
    show ?thesis
      using Cons.IH [of "AList.update name (att_created a) fm" "snd (download a fm s)"] True
        download_result(2) [of a fm s]
      by (simp add: bind_ok [of "download a fm" s, OF f] meta_inner_def sh_inner_def)
  next
    case False
    then show ?thesis
      using Cons.IH [of fm s]
      by (simp add: bind_def return_def meta_inner_def sh_inner_def)
  qed
qed

lemma keeps_inner_loop:
  "keeps env (fold_action atts (\<lambda>a m. if att_filename a = name then download a m else return m) fm)"
  by (intro keeps_fold_action keeps_if keeps_download keeps_return)

lemma keeps_download_loop: "keeps env (download_loop changed fm)"
  unfolding download_loop_def
  by (intro keeps_fold_action keeps_bind keeps_issue keeps_inner_loop)

lemma env_live: "env s' = env s \<Longrightarrow> live s' = live s"
  by (simp add: env_def)

lemma outer_loop:
  "fst (download_loop changed fm s) = Inr (meta_outer changed (raw_attachment (raw (live s))) fm)
   \<and> shadow (snd (download_loop changed fm s))
       = sh_outer changed (raw_attachment (raw (live s))) (shadow s)"
proof (induction changed arbitrary: fm s)
  case Nil
  then show ?case by (simp add: download_loop_def return_def meta_outer_def sh_outer_def)
next
  case (Cons name changed)
  let ?atts = "raw_attachment (raw (live s))"
  let ?inner = "fold_action ?atts (\<lambda>a m. if att_filename a = name then download a m else return m) fm"
  let ?body = "bind issue (\<lambda>i.
             fold_action (raw_attachment (raw i)) (\<lambda>a meta'.
               if att_filename a = name then download a meta' else return meta') fm)"
  have b: "?body s = ?inner (snd (issue s))"
    by (simp add: bind_ok [OF issue_live(1)])
  have f: "fst (?body s) = Inr (meta_inner name ?atts fm)"
    and sh: "shadow (snd (?body s)) = sh_inner name ?atts (shadow s)"
    using inner_loop [of ?atts name fm "snd (issue s)"] keeps_issue(2)
    by (simp_all add: b keeps_def)
  have "keeps env ?body"
    by (intro keeps_bind keeps_issue keeps_inner_loop)
  then have lv: "live (snd (?body s)) = live s"
    by (auto simp: keeps_def intro: env_live)
  have unfold: "download_loop (name # changed) fm s
      = download_loop changed (meta_inner name ?atts fm) (snd (?body s))"
    unfolding download_loop_def by (simp add: bind_ok [of ?body s, OF f])
  show ?case
    unfolding unfold
    using Cons.IH [of "meta_inner name ?atts fm" "snd (?body s)"]
    by (simp add: lv sh meta_outer_def sh_outer_def)
qed

lemma latest_Cons:
  "latest val (a # atts) = [att_filename a \<mapsto> val a] ++ latest val atts"
  by (simp add: latest_def map_of_append)

lemma fold_cond_update:
  assumes "\<And>a m. map_of (g a m) = (map_of m)(name \<mapsto> val a)"
  shows "map_of (fold (\<lambda>a m. if att_filename a = name then g a m else m) atts fm)
         = map_of fm ++ (latest val atts |` {name})"
proof (induction atts arbitrary: fm)
  case Nil
  then show ?case by (simp add: latest_def)
next
  case (Cons a atts)
  show ?case
    by (rule ext)
       (auto simp: Cons.IH assms latest_Cons map_add_def restrict_map_def split: option.splits)
qed

lemma fold_restrict:
  assumes "\<And>name m. map_of (h name m) = map_of m ++ (L |` {name})"
  shows "map_of (fold h changed fm) = map_of fm ++ (L |` set changed)"
proof (induction changed arbitrary: fm)
  case Nil
  then show ?case by simp
next
  case (Cons name changed)
  show ?case
    by (rule ext)
       (auto simp: Cons.IH assms map_add_def restrict_map_def split: option.splits)
qed

lemma map_of_meta_outer:
  "map_of (meta_outer changed atts fm) = map_of fm ++ (latest att_created atts |` set changed)"
  unfolding meta_outer_def
  by (rule fold_restrict) (simp add: meta_inner_def fold_cond_update update_conv')

lemma put_file_parts:
  "sh_remote_files (worktree (put_file name txt r)) = sh_remote_files (worktree r)"
  "index (put_file name txt r) = index r"
  "commits (put_file name txt r) = commits r"
  "map_of (sh_files (worktree (put_file name txt r))) = (map_of (sh_files (worktree r)))(name \<mapsto> txt)"
  by (simp_all add: put_file_def update_conv')

lemma sh_inner_parts:
  "sh_remote_files (worktree (sh_inner name atts r)) = sh_remote_files (worktree r)
   \<and> index (sh_inner name atts r) = index r
   \<and> commits (sh_inner name atts r) = commits r"
  unfolding sh_inner_def
  by (induction atts arbitrary: r) (simp_all add: put_file_parts)

lemma sh_inner_files:
  "sh_files (worktree (sh_inner name atts r))
   = fold (\<lambda>a m. if att_filename a = name
                 then AList.update name (att_content a) (AList.update name [] m) else m)
       atts (sh_files (worktree r))"
  unfolding sh_inner_def
  by (induction atts arbitrary: r) (simp_all add: put_file_def)

lemma map_of_sh_inner:
  "map_of (sh_files (worktree (sh_inner name atts r)))
   = map_of (sh_files (worktree r)) ++ (latest att_content atts |` {name})"
  unfolding sh_inner_files
  by (rule fold_cond_update) (simp add: update_conv')

lemma sh_outer_parts:
  "sh_remote_files (worktree (sh_outer changed atts r)) = sh_remote_files (worktree r)
   \<and> index (sh_outer changed atts r) = index r
   \<and> commits (sh_outer changed atts r) = commits r"
  unfolding sh_outer_def
  by (induction changed arbitrary: r) (simp_all add: sh_inner_parts)

lemma map_of_sh_outer:
  "map_of (sh_files (worktree (sh_outer changed atts r)))
   = map_of (sh_files (worktree r)) ++ (latest att_content atts |` set changed)"
proof (induction changed arbitrary: r)
  case Nil
  then show ?case by (simp add: sh_outer_def)
next
  case (Cons name changed)
  have "sh_outer (name # changed) atts r = sh_outer changed atts (sh_inner name atts r)"
    by (simp add: sh_outer_def)
  then show ?case
    by (simp add: Cons.IH map_of_sh_inner)
       (rule ext, auto simp: map_add_def restrict_map_def split: option.splits)
qed

lemma same_files_iff: "same_files a b \<longleftrightarrow> map_of a = map_of b"
proof
  assume sf: "same_files a b"
  show "map_of a = map_of b"
  proof (rule ext)
    fix k
    show "map_of a k = map_of b k"
    proof (cases "k \<in> fst ` set a \<union> fst ` set b")
      case True
      with sf show ?thesis by (auto simp: same_files_def list_all_iff)
    next
      case False
      then have "map_of a k = None" "map_of b k = None"
        by (simp_all add: map_of_eq_None_iff)
      then show ?thesis by simp
    qed
  qed
next
  assume "map_of a = map_of b"
  then show "same_files a b" by (simp add: same_files_def list_all_iff)
qed

lemma same_remote_files_iff:
  "same_remote_files x y
   \<longleftrightarrow> map_option (map_decoded map_of) x = map_option (map_decoded map_of) y"
proof (cases x)
  case None
  then show ?thesis by (auto simp: same_remote_files_def)
next
  case (Some dx)
  show ?thesis
  proof (cases y)
    case None
    with Some show ?thesis by (cases dx) (auto simp: same_remote_files_def)
  next
    case (Some dy)
    with \<open>x = Some dx\<close> show ?thesis
      by (cases dx; cases dy) (auto simp: same_remote_files_def same_files_iff)
  qed
qed

lemma same_tree_iff: "same_tree t u \<longleftrightarrow> tree_sem t = tree_sem u"
  by (simp add: same_tree_def tree_sem_def same_remote_files_iff same_files_iff)

lemma percent_error_git:
  "percent_error ''Executing git command %s'' (TupleArgs [ObjArg]) = None"
  by (simp add: percent_error_def parse_spec_def parse_precision_def parse_length_def
      is_flag_def is_digit_def convert_def)

lemma run_git_command_result:
  "run_git_command args fok sh s =
     (case git sh args (s\<lparr>log_file := log_file s
              @ [(DEBUG, ''Executing git command %s'', TupleArgs [ObjArg])]\<rparr>) of
        (Some out, s') \<Rightarrow> (Inr (Some (strip out)), s')
      | (None, s') \<Rightarrow> if fok then (Inr None, s') else (Inl CalledProcessError, s'))"
  by (simp add: run_git_command_def bind_def log_result percent_error_git DEBUG_def INFO_def)

lemma keeps_run_git_command_env: "keeps env (run_git_command args fok sh)"
  by (auto simp: keeps_def run_git_command_result git_def Let_def env_def
      split: option.splits prod.splits)

lemma git_add_shadow:
  assumes "run_git_command [''add'', ''-A''] False True s = (Inr r, s')"
  shows "shadow s' = (shadow s)\<lparr>index := worktree (shadow s)\<rparr>"
  using assms
  by (auto simp: run_git_command_result git_def Let_def split: option.splits prod.splits if_splits)

lemma git_commit_shadow:
  assumes "run_git_command [''commit'', ''-m'', msg] True True s = (r, s')"
  shows "shadow s' =
     (if git_answer s True [''commit'', ''-m'', msg] \<noteq> None
         \<and> \<not> same_tree (index (shadow s)) (head_tree (shadow s))
      then (shadow s)\<lparr>commits := (msg, index (shadow s)) # commits (shadow s)\<rparr>
      else shadow s)"
  using assms
  by (auto simp: run_git_command_result git_def Let_def split: option.splits prod.splits if_splits)

lemma git_push_shadow:
  assumes "run_git_command [''push'', ''origin'', ''jira''] False True s = (r, s')"
  shows "shadow s' = shadow s"
  using assms
  by (auto simp: run_git_command_result git_def Let_def split: option.splits prod.splits if_splits)

lemma get_remotely_changed_result:
  assumes "get_remotely_changed cl c s = (Inr changed, s')"
  shows "\<exists>fm. get_remote_file_metadata s = (Inr fm, s) \<and> changed = changed_names cl c s fm
           \<and> s' = snd (issue s)"
  using assms
  by (auto simp: get_remotely_changed_def bind_Inr get_ignore_globs_def return_def
      get_remote_file_metadata_def changed_names_def remote_globs_def issue_result live_def
      split: option.splits decoded.splits)

lemma write_shadow_result:
  "write_shadow name txt s = (Inr (), s\<lparr>shadow := put_file name txt (shadow s)\<rparr>)"
  by (simp add: write_shadow_def modify_def)

lemma foreach_write_shadow:
  "fst (foreach ws (\<lambda>(name, txt). write_shadow name txt) s) = Inr ()
   \<and> shadow (snd (foreach ws (\<lambda>(name, txt). write_shadow name txt) s)) = put_all ws (shadow s)
   \<and> env (snd (foreach ws (\<lambda>(name, txt). write_shadow name txt) s)) = env s"
proof (induction ws arbitrary: s)
  case Nil
  then show ?case by (simp add: return_def put_all_def)
next
  case (Cons w ws)
  obtain name content where w: "w = (name, content)" by (cases w)
  show ?case
    using Cons.IH [of "s\<lparr>shadow := put_file name content (shadow s)\<rparr>"]
    by (simp add: w bind_def write_shadow_result put_all_def env_def)
qed

lemma store_cached_issue_result:
  "store_cached_issue s =
     (Inr (), (snd (issue s))\<lparr>issue_json :=
        Some (Parsed \<lparr>st_options = Some (options (live s)), st_raw = Some (raw (live s))\<rparr>)\<rparr>)"
  by (simp add: store_cached_issue_def bind_ok [of issue s, OF issue_live(1)] modify_def)

lemma store_cached_issue_frame:
  "fst (store_cached_issue s) = Inr ()"
  "shadow (snd (store_cached_issue s)) = shadow s"
  "env (snd (store_cached_issue s)) = env s"
  by (simp_all add: store_cached_issue_result env_def issue_live)

lemma set_remote_file_metadata_result:
  "fst (set_remote_file_metadata fm s) = Inr ()"
  "shadow (snd (set_remote_file_metadata fm s)) = set_meta fm (shadow s)"
  "env (snd (set_remote_file_metadata fm s)) = env s"
  by (simp_all add: set_remote_file_metadata_def modify_def set_meta_def env_def)

lemma issue_frame:
  "shadow (snd (issue s)) = shadow s" "env (snd (issue s)) = env s"
  using keeps_issue by (simp_all add: keeps_def)

lemma fetch_before_git:
  assumes "fetch cl c s = (Inr u, s1)"
  shows "\<exists>fm0 sg sa sc r1 r2 r3.
           get_remote_file_metadata s = (Inr fm0, s)
         \<and> shadow sg = put_all (rendered c (live s))
              (set_meta (meta_outer (changed_names cl c s fm0) (raw_attachment (raw (live s))) fm0)
                 (sh_outer (changed_names cl c s fm0) (raw_attachment (raw (live s))) (shadow s)))
         \<and> env sg = env s
         \<and> run_git_command [''add'', ''-A''] False True sg = (Inr r1, sa)
         \<and> run_git_command [''commit'', ''-m'', ''Pulled remote changes''] True True sa = (Inr r2, sc)
         \<and> run_git_command [''push'', ''origin'', ''jira''] False True sc = (Inr r3, s1)"
proof -
  from assms obtain fm0 s1a changed s2 fm1 s3 s4 s5 i s6 s7 s8 s9 sg r1 sa r2 sc r3 where
    m: "get_remote_file_metadata s = (Inr fm0, s1a)"
    and rc: "get_remotely_changed cl c s1a = (Inr changed, s2)"
    and dl: "download_loop changed fm0 s2 = (Inr fm1, s3)"
    and sm: "set_remote_file_metadata fm1 s3 = (Inr (), s4)"
    and w1: "write_shadow (TICKET_DETAILS c) [] s4 = (Inr (), s5)"
    and iss: "issue s5 = (Inr i, s6)"
    and ff: "foreach (field_files c (raw_fields (raw i))) (\<lambda>(name, txt). write_shadow name txt) s6
              = (Inr (), s7)"
    and w2: "write_shadow (TICKET_DETAILS c) (concat (map snd (details_blocks c (raw_fields (raw i))))) s7
              = (Inr (), s8)"
    and w3: "write_shadow (TICKET_COMMENTS c) (comments_text (raw_comments (raw i))) s8 = (Inr (), s9)"
    and st: "store_cached_issue s9 = (Inr (), sg)"
    and ga: "run_git_command [''add'', ''-A''] False True sg = (Inr r1, sa)"
    and gc: "run_git_command [''commit'', ''-m'', ''Pulled remote changes''] True True sa = (Inr r2, sc)"
    and gp: "run_git_command [''push'', ''origin'', ''jira''] False True sc = (Inr r3, s1)"
    unfolding fetch_def bind_Inr return_def by auto
  have same: "s1a = s"
    using m by (auto simp: get_remote_file_metadata_def split: option.splits decoded.splits)
  from get_remotely_changed_result [OF rc [unfolded same]] m
  have ch: "changed = changed_names cl c s fm0" and s2: "s2 = snd (issue s)"
    by (auto simp: same)
  let ?atts = "raw_attachment (raw (live s))"
  have e2: "env s2 = env s" and sh2: "shadow s2 = shadow s"
    by (simp_all add: s2 issue_frame)
  have l2: "live s2 = live s"
    using e2 by (rule env_live)
  have fm1: "fm1 = meta_outer changed ?atts fm0"
    and sh3: "shadow s3 = sh_outer changed ?atts (shadow s)"
    using outer_loop [of changed fm0 s2] dl by (simp_all add: l2 sh2)
  have e3: "env s3 = env s"
    using keeps_download_loop [of changed fm0] dl e2 by (auto dest: keepsD)
  have sh4: "shadow s4 = set_meta fm1 (shadow s3)" and e4: "env s4 = env s"
    using set_remote_file_metadata_result [of fm1 s3] sm e3 by simp_all
  have sh5: "shadow s5 = put_file (TICKET_DETAILS c) [] (shadow s4)" and e5: "env s5 = env s"
    using w1 e4 by (auto simp: write_shadow_result env_def)
  have i: "i = live s" and sh6: "shadow s6 = shadow s5" and e6: "env s6 = env s"
    using iss issue_live(1) [of s5] issue_frame [of s5] e5 by (auto dest: env_live)
  have sh7: "shadow s7 = put_all (field_files c (raw_fields (raw i))) (shadow s6)"
    and e7: "env s7 = env s"
    using foreach_write_shadow [of "field_files c (raw_fields (raw i))" s6] ff e6 by simp_all
  have sh8: "shadow s8 = put_file (TICKET_DETAILS c)
                 (concat (map snd (details_blocks c (raw_fields (raw i))))) (shadow s7)"
    and e8: "env s8 = env s"
    using w2 e7 by (auto simp: write_shadow_result env_def)
  have sh9: "shadow s9 = put_file (TICKET_COMMENTS c) (comments_text (raw_comments (raw i)))
                (shadow s8)"
    and e9: "env s9 = env s"
    using w3 e8 by (auto simp: write_shadow_result env_def)
  have shg: "shadow sg = shadow s9" and eg: "env sg = env s"
    using store_cached_issue_frame [of s9] st e9 by simp_all
  have "shadow sg = put_all (rendered c (live s)) (set_meta fm1 (sh_outer changed ?atts (shadow s)))"
    by (simp add: shg sh9 sh8 sh7 sh6 sh5 sh4 sh3 i rendered_def put_all_def)
  with m same ch fm1 eg ga gc gp show ?thesis
    by blast
qed

lemma put_all_parts:
  "sh_remote_files (worktree (put_all ws r)) = sh_remote_files (worktree r)
   \<and> index (put_all ws r) = index r
   \<and> commits (put_all ws r) = commits r
   \<and> map_of (sh_files (worktree (put_all ws r))) = map_of (sh_files (worktree r)) ++ map_of (rev ws)"
proof (induction ws arbitrary: r)
  case Nil
  then show ?case by (simp add: put_all_def)
next
  case (Cons w ws)
  obtain name content where w: "w = (name, content)" by (cases w)
  have step: "put_all (w # ws) r = put_all ws (put_file name content r)"
    by (simp add: put_all_def w)
  show ?case
    unfolding step
    by (simp add: Cons.IH put_file_parts w map_of_append)
       (rule ext, simp add: map_add_def split: option.splits)
qed

lemma set_meta_parts:
  "sh_remote_files (worktree (set_meta fm r)) = Some (Parsed fm)"
  "sh_files (worktree (set_meta fm r)) = sh_files (worktree r)"
  "commits (set_meta fm r) = commits r"
  by (simp_all add: set_meta_def)

lemma head_tree_commits: "commits r = commits r' \<Longrightarrow> head_tree r = head_tree r'"
  by (simp add: head_tree_def)

lemma env_parts:
  "env s' = env s \<Longrightarrow> git_answer s' = git_answer s"
  "env s' = env s \<Longrightarrow> work_files s' = work_files s"
  "env s' = env s \<Longrightarrow> home_files s' = home_files s"
  by (simp_all add: env_def)

lemma fetch_summary:
  assumes "fetch cl c s = (Inr u, s1)"
  shows "\<exists>fm0 fm1.
       get_remote_file_metadata s = (Inr fm0, s)
     \<and> sh_remote_files (worktree (shadow s1)) = Some (Parsed fm1)
     \<and> map_of fm1 = map_of fm0
          ++ (latest att_created (raw_attachment (raw (live s))) |` set (changed_names cl c s fm0))
     \<and> map_of (sh_files (worktree (shadow s1)))
         = map_of (sh_files (worktree (shadow s)))
           ++ (latest att_content (raw_attachment (raw (live s))) |` set (changed_names cl c s fm0))
           ++ map_of (rev (rendered c (live s)))
     \<and> env s1 = env s
     \<and> commits (shadow s1) =
          (if git_answer s True [''commit'', ''-m'', ''Pulled remote changes''] \<noteq> None
              \<and> \<not> same_tree (worktree (shadow s1)) (head_tree (shadow s))
           then (''Pulled remote changes'', worktree (shadow s1)) # commits (shadow s)
           else commits (shadow s))"
proof -
  let ?atts = "raw_attachment (raw (live s))"
  from fetch_before_git [OF assms] obtain fm0 sg sa sc r1 r2 r3 where
    m: "get_remote_file_metadata s = (Inr fm0, s)"
    and shg: "shadow sg = put_all (rendered c (live s))
              (set_meta (meta_outer (changed_names cl c s fm0) ?atts fm0)
                 (sh_outer (changed_names cl c s fm0) ?atts (shadow s)))"
    and eg: "env sg = env s"
    and ga: "run_git_command [''add'', ''-A''] False True sg = (Inr r1, sa)"
    and gc: "run_git_command [''commit'', ''-m'', ''Pulled remote changes''] True True sa = (Inr r2, sc)"
    and gp: "run_git_command [''push'', ''origin'', ''jira''] False True sc = (Inr r3, s1)"
    by blast
  let ?ch = "changed_names cl c s fm0"
  let ?fm1 = "meta_outer ?ch ?atts fm0"
  have g1: "sh_remote_files (worktree (shadow sg)) = Some (Parsed ?fm1)"
    and g2: "commits (shadow sg) = commits (shadow s)"
    and g3: "map_of (sh_files (worktree (shadow sg)))
         = map_of (sh_files (worktree (shadow s))) ++ (latest att_content ?atts |` set ?ch)
           ++ map_of (rev (rendered c (live s)))"
    by (simp_all add: shg put_all_parts set_meta_parts sh_outer_parts map_of_sh_outer)
  have ea: "env sa = env s"
    using keepsD [OF keeps_run_git_command_env ga] eg by simp
  have ec: "env sc = env s"
    using keepsD [OF keeps_run_git_command_env gc] ea by simp
  have e1: "env s1 = env s"
    using keepsD [OF keeps_run_git_command_env gp] ec by simp
  have sha: "shadow sa = (shadow sg)\<lparr>index := worktree (shadow sg)\<rparr>"
    using git_add_shadow [OF ga] .
  have shc: "shadow sc =
     (if git_answer s True [''commit'', ''-m'', ''Pulled remote changes''] \<noteq> None
         \<and> \<not> same_tree (worktree (shadow sg)) (head_tree (shadow s))
      then (shadow sa)\<lparr>commits := (''Pulled remote changes'', worktree (shadow sg)) # commits (shadow s)\<rparr>
      else shadow sa)"
    using git_commit_shadow [OF gc] g2
    by (simp add: sha env_parts(1) [OF ea] head_tree_def)
  have sh1: "shadow s1 = shadow sc"
    using git_push_shadow [OF gp] .
  have wt: "worktree (shadow s1) = worktree (shadow sg)"
    by (simp add: sh1 shc sha)
  have cm: "commits (shadow s1) =
          (if git_answer s True [''commit'', ''-m'', ''Pulled remote changes''] \<noteq> None
              \<and> \<not> same_tree (worktree (shadow s1)) (head_tree (shadow s))
           then (''Pulled remote changes'', worktree (shadow s1)) # commits (shadow s)
           else commits (shadow s))"
    by (simp add: wt sh1 shc sha g2)
  show ?thesis
    using m g1 g3 e1 cm map_of_meta_outer [of ?ch ?atts fm0] unfolding wt [symmetric]
    by blast
qed

lemma changed_names_cong:
  "env s' = env s \<Longrightarrow> map_of fm' = map_of fm \<Longrightarrow>
   changed_names cl c s' fm' = changed_names cl c s fm"
  by (simp add: changed_names_def remote_globs_def env_def)

lemma changed_again_subset:
  assumes "map_of fm1 = map_of fm0
          ++ (latest att_created (raw_attachment (raw (live s))) |` set (changed_names cl c s fm0))"
  shows "set (changed_names cl c s fm1) \<subseteq> set (changed_names cl c s fm0)"
proof
  fix k
  assume "k \<in> set (changed_names cl c s fm1)"
  then obtain a where a: "a \<in> set (raw_attachment (raw (live s)))" "att_filename a = k"
    "\<not> file_matches_globs cl k (remote_globs c s)" "map_of fm1 k \<noteq> Some (att_created a)"
    by (auto simp: changed_names_def)
  show "k \<in> set (changed_names cl c s fm0)"
  proof (rule ccontr)
    assume nin: "k \<notin> set (changed_names cl c s fm0)"
    then have "map_of fm1 k = map_of fm0 k"
      by (simp add: assms map_add_def restrict_map_def)
    moreover from nin a have "map_of fm0 k = Some (att_created a)"
      by (auto simp: changed_names_def)
    ultimately show False using a(4) by simp
  qed
qed

lemma add_restrict_idem:
  assumes "C1 \<subseteq> C0"
  shows "((A ++ (L |` C0)) ++ R) ++ (L |` C1) ++ R = (A ++ (L |` C0)) ++ R"
  using assms
  by (intro ext) (auto simp: map_add_def restrict_map_def split: option.splits)

lemma add_restrict_idem0:
  assumes "C1 \<subseteq> C0"
  shows "(A ++ (L |` C0)) ++ (L |` C1) = A ++ (L |` C0)"
  using assms
  by (intro ext) (auto simp: map_add_def restrict_map_def split: option.splits)

lemma render_no_detail:
  "field \<in> set (NO_DETAIL_FIELDS c) \<Longrightarrow> render_field c field v \<noteq> DetailBlock block"
  by (cases v) (simp_all add: render_field_def)

lemma no_detail_not_in_blocks:
  assumes "field \<in> set (NO_DETAIL_FIELDS c)"
  shows "field \<notin> fst ` set (details_blocks c flds)"
proof
  assume "field \<in> fst ` set (details_blocks c flds)"
  then obtain block where "(field, block) \<in> set (details_blocks c flds)"
    by auto
  then have "render_field c field (dict_get flds field) = DetailBlock block"
    by (auto simp: details_blocks_def renderings_def split: rendering.splits)
  with render_no_detail [OF assms] show False by blast
qed

lemma rendered_details:
  assumes "TICKET_COMMENTS c \<noteq> TICKET_DETAILS c"
  shows "map_of (rev (rendered c i)) (TICKET_DETAILS c)
         = Some (concat (map snd (details_blocks c (raw_fields (raw i)))))"
  using assms by (simp add: rendered_def)

lemma fetch_c1: "fst (fetch collab0 constants0 folder_c) = Inr ()"
  by code_simp

lemma fetch_c_details:
  "map_of (sh_files (worktree (shadow (snd (fetch collab0 constants0 folder_c))))) ''details.jira.rst''
   = Some (''summary::'' @ [LF, LF] @ ''    First'' @ [LF, LF])"
  by code_simp

lemma fetch_c2: "fst (fetch collab0 constants0 (snd (fetch collab0 constants0 folder_c))) = Inr ()"
  by code_simp

lemma fetch_c_commits:
  "length (commits (shadow (snd (fetch collab0 constants0 folder_c)))) = 1"
  by code_simp

lemma fetch_c_meta:
  "fst (get_remote_file_metadata (snd (fetch collab0 constants0 folder_c)))
   = Inr [(''spec.pdf'', ''T1'')]"
  by code_simp

lemma issue_c_blocks:
  "concat (map snd (details_blocks constants0 (raw_fields (raw issue_c))))
   = ''summary::'' @ [LF, LF] @ ''    First'' @ [LF, LF]"
  by code_simp

section \<open>C3: a second \<^verbatim>\<open>fetch\<close> changes nothing\<close>

text \<open>
  C3. When \<^verbatim>\<open>fetch()\<close> returns and is called again at once, on the same instance and with
  nothing changed in between, and returns again, the second call has added no commit to
  the shadow history (its commit attempt fails, which is tolerated), and the remote-file
  metadata reads as it did after the first call.
\<close>

theorem fetch_twice:
  assumes f1: "fetch cl c s = (Inr u, s1)" and f2: "fetch cl c s1 = (Inr u', s2)"
  shows "commits (shadow s2) = commits (shadow s1)
       \<and> (\<exists>m1 m2. get_remote_file_metadata s1 = (Inr m1, s1)
             \<and> get_remote_file_metadata s2 = (Inr m2, s2) \<and> map_of m2 = map_of m1)"
proof -
  let ?atts = "raw_attachment (raw (live s))"
  from fetch_summary [OF f1] obtain fm0 fm1 where
    m0: "get_remote_file_metadata s = (Inr fm0, s)"
    and r1: "sh_remote_files (worktree (shadow s1)) = Some (Parsed fm1)"
    and mm1: "map_of fm1 = map_of fm0 ++ (latest att_created ?atts |` set (changed_names cl c s fm0))"
    and fl1: "map_of (sh_files (worktree (shadow s1)))
         = map_of (sh_files (worktree (shadow s)))
           ++ (latest att_content ?atts |` set (changed_names cl c s fm0))
           ++ map_of (rev (rendered c (live s)))"
    and e1: "env s1 = env s"
    and c1: "commits (shadow s1) =
          (if git_answer s True [''commit'', ''-m'', ''Pulled remote changes''] \<noteq> None
              \<and> \<not> same_tree (worktree (shadow s1)) (head_tree (shadow s))
           then (''Pulled remote changes'', worktree (shadow s1)) # commits (shadow s)
           else commits (shadow s))"
    by blast
  have l1: "live s1 = live s"
    using e1 by (rule env_live)
  have g1: "get_remote_file_metadata s1 = (Inr fm1, s1)"
    by (simp add: get_remote_file_metadata_def r1)
  from fetch_summary [OF f2] g1 obtain fm2 where
    r2: "sh_remote_files (worktree (shadow s2)) = Some (Parsed fm2)"
    and mm2: "map_of fm2 = map_of fm1 ++ (latest att_created ?atts |` set (changed_names cl c s1 fm1))"
    and fl2: "map_of (sh_files (worktree (shadow s2)))
         = map_of (sh_files (worktree (shadow s1)))
           ++ (latest att_content ?atts |` set (changed_names cl c s1 fm1))
           ++ map_of (rev (rendered c (live s)))"
    and e2: "env s2 = env s1"
    and c2: "commits (shadow s2) =
          (if git_answer s1 True [''commit'', ''-m'', ''Pulled remote changes''] \<noteq> None
              \<and> \<not> same_tree (worktree (shadow s2)) (head_tree (shadow s1))
           then (''Pulled remote changes'', worktree (shadow s2)) # commits (shadow s1)
           else commits (shadow s1))"
    by (auto simp: l1)
  have cn: "changed_names cl c s1 fm1 = changed_names cl c s fm1"
    using e1 by (intro changed_names_cong) simp_all
  have sub: "set (changed_names cl c s1 fm1) \<subseteq> set (changed_names cl c s fm0)"
    unfolding cn using mm1 by (rule changed_again_subset)
  have meta: "map_of fm2 = map_of fm1"
    unfolding mm2 mm1 by (rule add_restrict_idem0 [OF sub])
  have files: "map_of (sh_files (worktree (shadow s2))) = map_of (sh_files (worktree (shadow s1)))"
    unfolding fl2 unfolding fl1 by (rule add_restrict_idem [OF sub])
  have sem: "tree_sem (worktree (shadow s2)) = tree_sem (worktree (shadow s1))"
    by (simp add: tree_sem_def files r1 r2 meta)
  have head1: "git_answer s True [''commit'', ''-m'', ''Pulled remote changes''] \<noteq> None
      \<Longrightarrow> same_tree (worktree (shadow s1)) (head_tree (shadow s1))"
    using c1 by (auto simp: head_tree_def same_tree_iff split: if_splits)
  have "commits (shadow s2) = commits (shadow s1)"
  proof (cases "git_answer s True [''commit'', ''-m'', ''Pulled remote changes''] = None")
    case True
    then show ?thesis
      using c2 by (simp add: env_parts(1) [OF e1])
  next
    case False
    from head1 [OF False] have "same_tree (worktree (shadow s2)) (head_tree (shadow s1))"
      by (simp add: same_tree_iff sem)
    then show ?thesis
      using c2 by simp
  qed
  moreover have "get_remote_file_metadata s2 = (Inr fm2, s2)"
    by (simp add: get_remote_file_metadata_def r2)
  ultimately show ?thesis
    using g1 meta by blast
qed

text \<open>The witness: on \<^const>\<open>folder_c\<close> the first \<^verbatim>\<open>fetch()\<close> downloads \<^verbatim>\<open>spec.pdf\<close> and makes
  the first commit; the second adds none.\<close>

theorem fetch_twice_witness:
  "\<exists>s1 s2. fetch collab0 constants0 folder_c = (Inr (), s1)
     \<and> fetch collab0 constants0 s1 = (Inr (), s2)
     \<and> length (commits (shadow s1)) = 1
     \<and> commits (shadow s2) = commits (shadow s1)
     \<and> (\<exists>m. get_remote_file_metadata s2 = (Inr m, s2) \<and> map_of m ''spec.pdf'' = Some ''T1'')"
proof -
  obtain s1 where f1: "fetch collab0 constants0 folder_c = (Inr (), s1)"
    using fetch_c1 by (cases "fetch collab0 constants0 folder_c") auto
  then have s1: "s1 = snd (fetch collab0 constants0 folder_c)"
    by simp
  obtain s2 where f2: "fetch collab0 constants0 s1 = (Inr (), s2)"
    using fetch_c2 unfolding s1 [symmetric] by (cases "fetch collab0 constants0 s1") auto
  from fetch_twice [OF f1 f2] obtain m1 m2 where
    c: "commits (shadow s2) = commits (shadow s1)"
    and g1: "get_remote_file_metadata s1 = (Inr m1, s1)"
    and g2: "get_remote_file_metadata s2 = (Inr m2, s2)"
    and eq: "map_of m2 = map_of m1"
    by blast
  have "m1 = [(''spec.pdf'', ''T1'')]"
    using fetch_c_meta g1 unfolding s1 [symmetric] by simp
  then have "map_of m2 ''spec.pdf'' = Some ''T1''"
    using eq by simp
  moreover have "length (commits (shadow s1)) = 1"
    using fetch_c_commits unfolding s1 [symmetric] .
  ultimately show ?thesis
    using f1 f2 c g2 by blast
qed

section \<open>C8: no-detail fields\<close>

text \<open>
  C8. A field flagged as no-detail is never rendered as a block of the details file,
  whatever its value (a string, \<^verbatim>\<open>None\<close>, or another object). When \<^verbatim>\<open>fetch()\<close> returns, the
  details file of the shadow tree (a file other than the comments file) holds exactly
  the blocks of \<^const>\<open>details_blocks\<close> for the fields of the issue, and none of them is
  headed by a no-detail field.
\<close>

theorem no_detail_fields_excluded:
  assumes "fetch cl c s = (Inr u, s')" and "field \<in> set (NO_DETAIL_FIELDS c)"
    and "TICKET_COMMENTS c \<noteq> TICKET_DETAILS c"
  shows "(\<forall>v block. render_field c field v \<noteq> DetailBlock block)
       \<and> (\<exists>i. fst (issue s) = Inr i
             \<and> map_of (sh_files (worktree (shadow s'))) (TICKET_DETAILS c)
                 = Some (concat (map snd (details_blocks c (raw_fields (raw i)))))
             \<and> field \<notin> fst ` set (details_blocks c (raw_fields (raw i))))"
proof -
  from fetch_summary [OF assms(1)]
  have "map_of (sh_files (worktree (shadow s'))) (TICKET_DETAILS c)
        = Some (concat (map snd (details_blocks c (raw_fields (raw (live s))))))"
    by (auto simp: map_add_def rendered_details [OF assms(3)])
  with render_no_detail [OF assms(2)] no_detail_not_in_blocks [OF assms(2)] issue_live(1) [of s]
  show ?thesis by blast
qed

text \<open>The witness: \<^verbatim>\<open>watches\<close> (an object), \<^verbatim>\<open>comment\<close> (a string) and \<^verbatim>\<open>attachment\<close>
  (\<^verbatim>\<open>None\<close>) are no-detail fields of \<^const>\<open>issue_c\<close>; the details file holds the summary
  only.\<close>

theorem no_detail_fields_excluded_witness:
  "''watches'' \<in> set (NO_DETAIL_FIELDS constants0)
   \<and> TICKET_COMMENTS constants0 \<noteq> TICKET_DETAILS constants0
   \<and> (\<exists>s'. fetch collab0 constants0 folder_c = (Inr (), s')
         \<and> map_of (sh_files (worktree (shadow s'))) (TICKET_DETAILS constants0)
             = Some (''summary::'' @ [LF, LF] @ ''    First'' @ [LF, LF])
         \<and> ''watches'' \<notin> fst ` set (details_blocks constants0 (raw_fields (raw issue_c))))"
proof -
  have nd: "''watches'' \<in> set (NO_DETAIL_FIELDS constants0)"
    and ne: "TICKET_COMMENTS constants0 \<noteq> TICKET_DETAILS constants0"
    by (simp_all add: constants0_def)
  obtain s' where f: "fetch collab0 constants0 folder_c = (Inr (), s')"
    using fetch_c1 by (cases "fetch collab0 constants0 folder_c") auto
  have i: "fst (issue folder_c) = Inr issue_c"
    by (simp add: issue_result folder_c_def folder0_def)
  from no_detail_fields_excluded [OF f nd ne] i
  have "map_of (sh_files (worktree (shadow s'))) (TICKET_DETAILS constants0)
          = Some (concat (map snd (details_blocks constants0 (raw_fields (raw issue_c)))))"
    and "''watches'' \<notin> fst ` set (details_blocks constants0 (raw_fields (raw issue_c)))"
    by auto
  with nd ne f show ?thesis
    by (auto simp: issue_c_blocks)
qed

section \<open>What \<^verbatim>\<open>push\<close> adds to the trace and what it leaves alone\<close>

lemma growsD: "grows m \<Longrightarrow> m s = (r, s') \<Longrightarrow> \<exists>evs. trace s' = trace s @ evs"
  by (auto simp: grows_def dest: spec [of _ s])

lemma grows_return: "grows (return x)"
  by (simp add: grows_def return_def)

lemma grows_raise: "grows (raise e)"
  by (simp add: grows_def raise_def)

lemma grows_bind: "grows m \<Longrightarrow> (\<And>x. grows (k x)) \<Longrightarrow> grows (bind m k)"
  unfolding grows_def bind_def
proof (intro allI)
  fix s
  assume m: "\<forall>s. \<exists>evs. trace (snd (m s)) = trace s @ evs"
    and k: "\<And>x. \<forall>s. \<exists>evs. trace (snd (k x s)) = trace s @ evs"
  obtain r s' where ms: "m s = (r, s')" by (cases "m s")
  from m ms obtain e1 where e1: "trace s' = trace s @ e1"
    by (auto dest: spec [of _ s])
  show "\<exists>evs. trace (snd (case m s of (Inl e, s') \<Rightarrow> (Inl e, s') | (Inr x, s') \<Rightarrow> k x s'))
         = trace s @ evs"
  proof (cases r)
    case (Inl e)
    with ms e1 show ?thesis by simp
  next
    case (Inr x)
    from k [of x] obtain e2 where "trace (snd (k x s')) = trace s' @ e2"
      by (auto dest: spec [of _ s'])
    with ms e1 Inr show ?thesis by simp
  qed
qed

lemma grows_if: "grows a \<Longrightarrow> grows b \<Longrightarrow> grows (if c then a else b)"
  by simp

lemma grows_case_option:
  "grows a \<Longrightarrow> (\<And>x. grows (b x)) \<Longrightarrow> grows (case x of None \<Rightarrow> a | Some y \<Rightarrow> b y)"
  by (cases x) auto

lemma grows_fold_action:
  "(\<And>x acc. grows (body x acc)) \<Longrightarrow> grows (fold_action xs body acc)"
  by (induction xs arbitrary: acc) (auto intro: grows_return grows_bind)

lemma grows_foreach: "(\<And>x. grows (body x)) \<Longrightarrow> grows (foreach xs body)"
  by (induction xs) (auto intro: grows_return grows_bind)

lemma grows_same: "(\<And>s. trace (snd (m s)) = trace s) \<Longrightarrow> grows m"
  by (simp add: grows_def)

lemma grows_issue: "grows issue"
  by (simp add: grows_def issue_result split: option.splits)

lemma grows_jira: "grows jira"
  by (simp add: grows_def jira_def)

lemma grows_log: "grows (log m a l)"
  by (simp add: grows_def log_result issue_result split: option.splits)

lemma run_git_command_trace:
  "trace (snd (run_git_command args fok sh s)) = trace s @ [EvGit sh args]"
  by (simp add: run_git_command_result git_def Let_def split: option.splits prod.splits)

lemma grows_run_git_command: "grows (run_git_command args fok sh)"
  by (simp add: grows_def run_git_command_trace)

lemma grows_get_locally_changed: "grows (get_locally_changed cl c)"
  unfolding get_locally_changed_def
  by (intro grows_bind grows_run_git_command grows_case_option grows_raise)
     (simp_all add: grows_def get_ignore_globs_def)

lemma grows_get_local_differing_fields: "grows (get_local_differing_fields cl)"
  unfolding get_local_differing_fields_def get_original_values_def git_merge_base_def
  by (intro grows_bind grows_run_git_command grows_return)
     (simp add: grows_def get_local_fields_def)

lemma grows_get_new_comment: "grows (get_new_comment c clear)"
  by (simp add: grows_def get_new_comment_def split: option.splits)

lemma grows_status: "grows (status cl c)"
  unfolding status_def
  by (intro grows_bind grows_get_locally_changed grows_get_local_differing_fields
      grows_get_new_comment grows_return)

lemma grows_get_remote_file_metadata: "grows get_remote_file_metadata"
  by (simp add: grows_def get_remote_file_metadata_def split: option.splits decoded.splits)

lemma grows_modify: "(\<And>s. \<exists>evs. trace (g s) = trace s @ evs) \<Longrightarrow> grows (modify g)"
  by (simp add: grows_def modify_def)

lemma grows_add_attachment: "grows (add_attachment name)"
  unfolding add_attachment_def
  by (intro grows_bind grows_jira) (simp add: grows_def)

lemma grows_upload: "grows (upload name fm)"
  unfolding upload_def
  by (intro grows_bind grows_log grows_issue grows_foreach grows_if grows_add_attachment
          grows_return)
     (simp_all add: attachment_delete_def read_local_def grows_def modify_def split: option.splits)

lemma grows_add_comment: "grows (add_comment body)"
  unfolding add_comment_def
  by (intro grows_bind grows_jira grows_modify) simp

lemma grows_issue_update: "grows (issue_update u)"
  unfolding issue_update_def
  by (intro grows_bind grows_issue grows_modify) simp

lemma set_remote_file_metadata_trace:
  "set_remote_file_metadata fm s = (r, s') \<Longrightarrow>
   trace s' = trace s @ [EvSetRemoteFileMetadata fm]"
  by (auto simp: set_remote_file_metadata_def modify_def)

lemma run_git_command_traceD:
  "run_git_command args fok sh s = (r, s') \<Longrightarrow> trace s' = trace s @ [EvGit sh args]"
  using run_git_command_trace [of args fok sh s] by simp

lemma grows_comment_step:
  "grows (if comment \<noteq> []
           then bind (log (''Adding comment \"'' @ comment @ ''\"'') None INFO) (\<lambda>_.
                add_comment comment)
           else return ())"
  by (intro grows_if grows_bind grows_log grows_add_comment grows_return)

lemma grows_update_step:
  "grows (if u \<noteq> []
           then bind (log ''Updating fields \"%s\"'' (Some [ObjArg]) INFO) (\<lambda>_.
                issue_update u)
           else return ())"
  by (intro grows_if grows_bind grows_log grows_issue_update grows_return)

lemma keeps_same: "(\<And>s. f (snd (m s)) = f s) \<Longrightarrow> keeps f m"
  by (simp add: keeps_def)

lemma quiet_issue: "keeps added_comments issue" "keeps work_files issue"
  by (simp_all add: keeps_def added_comments_def issue_result split: option.splits)

lemma quiet_jira: "keeps added_comments jira" "keeps work_files jira"
  by (simp_all add: keeps_def added_comments_def jira_def)

lemma quiet_log: "keeps added_comments (log m a l)"
  by (simp add: keeps_def added_comments_def log_result issue_result split: option.splits)

lemma quiet_run_git_command: "keeps added_comments (run_git_command args fok sh)"
  by (simp add: keeps_def added_comments_def run_git_command_trace)

lemma quiet_get_locally_changed: "keeps added_comments (get_locally_changed cl c)"
  unfolding get_locally_changed_def
  by (intro keeps_bind keeps_get_ignore_globs quiet_run_git_command keeps_case_option
        keeps_raise, simp add: keeps_def)

lemma quiet_get_local_differing_fields:
  "keeps added_comments (get_local_differing_fields cl)"
  "keeps work_files (get_local_differing_fields cl)"
  unfolding get_local_differing_fields_def get_original_values_def git_merge_base_def
  by (intro keeps_bind quiet_run_git_command keeps_run_git_command keeps_return,
      simp add: keeps_def get_local_fields_def)+

lemma quiet_get_new_comment:
  "keeps added_comments (get_new_comment c clear)"
  "keeps work_files (get_new_comment c False)"
  by (simp_all add: keeps_def added_comments_def get_new_comment_def split: option.splits)

lemma quiet_status:
  "keeps added_comments (status cl c)" "keeps work_files (status cl c)"
  unfolding status_def
  by (intro keeps_bind quiet_get_locally_changed quiet_get_local_differing_fields
      quiet_get_new_comment keeps_get_locally_changed keeps_return)+

lemma quiet_get_remote_file_metadata: "keeps f get_remote_file_metadata"
  by (simp add: keeps_def get_remote_file_metadata_def split: option.splits decoded.splits)

lemma quiet_add_attachment:
  "keeps added_comments (add_attachment name)" "keeps work_files (add_attachment name)"
  unfolding add_attachment_def
  by (intro keeps_bind quiet_jira, simp add: keeps_def added_comments_def)+

lemma quiet_read_local: "keeps f (read_local name)"
  by (simp add: keeps_def read_local_def split: option.splits)

lemma quiet_attachment_delete:
  "keeps added_comments (attachment_delete a)" "keeps work_files (attachment_delete a)"
  by (simp_all add: keeps_def attachment_delete_def modify_def added_comments_def)

lemma quiet_upload_comments: "keeps added_comments (upload name fm)"
  unfolding upload_def
  by (intro keeps_bind quiet_read_local quiet_log quiet_issue keeps_foreach keeps_if
        quiet_attachment_delete quiet_add_attachment keeps_return)

lemma quiet_upload_files: "keeps work_files (upload name fm)"
  unfolding upload_def
  by (intro keeps_bind quiet_read_local keeps_log quiet_issue keeps_foreach keeps_if
        quiet_attachment_delete quiet_add_attachment keeps_return)

lemma quiet_issue_update:
  "keeps added_comments (issue_update u)" "keeps work_files (issue_update u)"
  unfolding issue_update_def
  by (intro keeps_bind quiet_issue keeps_modify, simp add: added_comments_def)+

lemma quiet_update_step:
  "keeps added_comments (if u \<noteq> []
           then bind (log ''Updating fields \"%s\"'' (Some [ObjArg]) INFO) (\<lambda>_.
                issue_update u)
           else return ())"
  "keeps work_files (if u \<noteq> []
           then bind (log ''Updating fields \"%s\"'' (Some [ObjArg]) INFO) (\<lambda>_.
                issue_update u)
           else return ())"
  by (intro keeps_if keeps_bind quiet_log keeps_log quiet_issue_update keeps_return)+

lemma quiet_add_comment: "keeps work_files (add_comment body)"
  unfolding add_comment_def
  by (intro keeps_bind quiet_jira keeps_modify) simp

lemma quiet_comment_step:
  "keeps work_files (if comment \<noteq> []
           then bind (log (''Adding comment \"'' @ comment @ ''\"'') None INFO) (\<lambda>_.
                add_comment comment)
           else return ())"
  by (intro keeps_if keeps_bind keeps_log quiet_add_comment keeps_return)

lemma quiet_set_remote_file_metadata:
  "keeps added_comments (set_remote_file_metadata fm)"
  "keeps work_files (set_remote_file_metadata fm)"
  by (simp_all add: keeps_def set_remote_file_metadata_def modify_def added_comments_def)

lemma push_ok: "fst (push collab1 constants0 folder_push) = Inr ()"
  by code_simp

lemma push_blank_ok: "fst (push collab0 constants0 folder_blank) = Inr ()"
  by code_simp

section \<open>C2: the order of the last steps of \<^verbatim>\<open>push\<close>\<close>

text \<open>
  C2, as amended. When \<^verbatim>\<open>push()\<close> returns, the last things it did were, in this order:
  \<^verbatim>\<open>add -A\<close> and \<^verbatim>\<open>commit\<close> on the working tree; \<^verbatim>\<open>fetch\<close> on the shadow repository;
  \<^verbatim>\<open>merge master\<close> (the reference merged is \<^verbatim>\<open>master\<close>, and the command is run without the
  shadow flag); the write of the remote-file metadata into the shadow tree; \<^verbatim>\<open>add -A\<close>
  and \<^verbatim>\<open>commit\<close> on the shadow repository; \<^verbatim>\<open>push origin jira\<close> on the shadow repository.
\<close>

theorem push_order:
  assumes "push cl c s = (Inr u, s')"
  shows "\<exists>before file_meta.
     trace s' = trace s @ before @
       [EvGit False [''add'', ''-A''],
        EvGit False [''commit'', ''-m'', ''Pushed local changes''],
        EvGit True [''fetch''],
        EvGit False [''merge'', ''master''],
        EvSetRemoteFileMetadata file_meta,
        EvGit True [''add'', ''-A''],
        EvGit True [''commit'', ''-m'', ''Pulled remote changes''],
        EvGit True [''push'', ''origin'', ''jira'']]"
proof -
  from assms obtain st s1 fm s2 fm' s3 comment s4 s5 s6 r7 s7 r8 s8 r9 s9 r10 s10 s11 r12 s12 r13 s13 r14
    where a1: "status cl c s = (Inr st, s1)"
    and a2: "get_remote_file_metadata s1 = (Inr fm, s2)"
    and a3: "fold_action (to_upload st) upload fm s2 = (Inr fm', s3)"
    and a4: "get_new_comment c True s3 = (Inr comment, s4)"
    and a5: "(if comment \<noteq> []
           then bind (log (''Adding comment \"'' @ comment @ ''\"'') None INFO) (\<lambda>_.
                add_comment comment)
           else return ()) s4 = (Inr (), s5)"
    and a6: "(if fold (\<lambda>(field, diff_values). AList.update field (snd diff_values))
                     (local_differs st) [] \<noteq> []
           then bind (log ''Updating fields \"%s\"'' (Some [ObjArg]) INFO) (\<lambda>_.
                issue_update (fold (\<lambda>(field, diff_values). AList.update field (snd diff_values))
                     (local_differs st) []))
           else return ()) s5 = (Inr (), s6)"
    and g7: "run_git_command [''add'', ''-A''] True False s6 = (Inr r7, s7)"
    and g8: "run_git_command [''commit'', ''-m'', ''Pushed local changes''] True False s7 = (Inr r8, s8)"
    and g9: "run_git_command [''fetch''] False True s8 = (Inr r9, s9)"
    and g10: "run_git_command [''merge'', ''master''] False False s9 = (Inr r10, s10)"
    and m11: "set_remote_file_metadata fm' s10 = (Inr (), s11)"
    and g12: "run_git_command [''add'', ''-A''] False True s11 = (Inr r12, s12)"
    and g13: "run_git_command [''commit'', ''-m'', ''Pulled remote changes''] True True s12 = (Inr r13, s13)"
    and g14: "run_git_command [''push'', ''origin'', ''jira''] False True s13 = (Inr r14, s')"
    unfolding push_def bind_Inr return_def by auto
  from growsD [OF grows_status a1] obtain e1 where e1: "trace s1 = trace s @ e1" ..
  from growsD [OF grows_get_remote_file_metadata a2] obtain e2 where e2: "trace s2 = trace s1 @ e2" ..
  from growsD [OF grows_fold_action a3, OF grows_upload]
  obtain e3 where e3: "trace s3 = trace s2 @ e3" ..
  from growsD [OF grows_get_new_comment a4] obtain e4 where e4: "trace s4 = trace s3 @ e4" ..
  from growsD [OF grows_comment_step a5] obtain e5 where e5: "trace s5 = trace s4 @ e5" ..
  from growsD [OF grows_update_step a6] obtain e6 where e6: "trace s6 = trace s5 @ e6" ..
  have "trace s' = trace s @ (e1 @ e2 @ e3 @ e4 @ e5 @ e6) @
       [EvGit False [''add'', ''-A''],
        EvGit False [''commit'', ''-m'', ''Pushed local changes''],
        EvGit True [''fetch''],
        EvGit False [''merge'', ''master''],
        EvSetRemoteFileMetadata fm',
        EvGit True [''add'', ''-A''],
        EvGit True [''commit'', ''-m'', ''Pulled remote changes''],
        EvGit True [''push'', ''origin'', ''jira'']]"
    by (simp add: run_git_command_traceD [OF g14] run_git_command_traceD [OF g13]
        run_git_command_traceD [OF g12] set_remote_file_metadata_trace [OF m11]
        run_git_command_traceD [OF g10] run_git_command_traceD [OF g9]
        run_git_command_traceD [OF g8] run_git_command_traceD [OF g7] e6 e5 e4 e3 e2 e1)
  then show ?thesis by blast
qed

theorem push_order_witness:
  "\<exists>s' before file_meta. push collab1 constants0 folder_push = (Inr (), s')
     \<and> trace s' = before @
       [EvGit False [''add'', ''-A''],
        EvGit False [''commit'', ''-m'', ''Pushed local changes''],
        EvGit True [''fetch''],
        EvGit False [''merge'', ''master''],
        EvSetRemoteFileMetadata file_meta,
        EvGit True [''add'', ''-A''],
        EvGit True [''commit'', ''-m'', ''Pulled remote changes''],
        EvGit True [''push'', ''origin'', ''jira'']]"
proof -
  obtain s' where p: "push collab1 constants0 folder_push = (Inr (), s')"
    using push_ok by (cases "push collab1 constants0 folder_push") auto
  have t: "trace folder_push = []"
    by (simp add: folder_push_def folder0_def)
  from push_order [OF p] p show ?thesis
    unfolding t by auto
qed

text \<open>
  C2 as stated fails on \<^const>\<open>folder0\<close>: \<^verbatim>\<open>push()\<close> returns, and the trace of the whole call
  holds no merge of the reference \<^verbatim>\<open>jira\<close> and no fetch on the working tree; what is merged
  is \<^verbatim>\<open>master\<close>, and the fetch runs on the shadow repository.
\<close>

theorem push_merges_master_counterexample:
  "fst (push collab0 constants0 folder0) = Inr ()
   \<and> trace (snd (push collab0 constants0 folder0)) =
       [EvGit False [''ls-files'', ''-o''], EvGit False [''ls-files'', ''-m''],
        EvGit False [''merge-base'', ''master'', ''jira''],
        EvGit False [''add'', ''-A''],
        EvGit False [''commit'', ''-m'', ''Pushed local changes''],
        EvGit True [''fetch''], EvGit False [''merge'', ''master''],
        EvSetRemoteFileMetadata [], EvGit True [''add'', ''-A''],
        EvGit True [''commit'', ''-m'', ''Pulled remote changes''],
        EvGit True [''push'', ''origin'', ''jira'']]
   \<and> EvGit False [''merge'', ''jira''] \<notin> set (trace (snd (push collab0 constants0 folder0)))
   \<and> EvGit False [''fetch''] \<notin> set (trace (snd (push collab0 constants0 folder0)))"
  by code_simp

section \<open>C7: the pending comment\<close>

text \<open>
  C7 fails on the code. The buffer of \<^const>\<open>folder_pct\<close> holds \<^verbatim>\<open>100%\<close> and a newline, which
  strips to the non-empty text \<^verbatim>\<open>100%\<close>. \<^verbatim>\<open>push()\<close> truncates the buffer, then calls
  \<^verbatim>\<open>self.log('Adding comment "%s"' % comment)\<close>; \<^verbatim>\<open>log\<close> applies \<^verbatim>\<open>%\<close> to the message
  once more and raises \<^verbatim>\<open>ValueError\<close>, so \<^verbatim>\<open>add_comment\<close> is never reached: no comment is
  submitted, and the text is gone from the buffer.
\<close>

theorem push_percent_comment_lost:
  "map_of (work_files folder_pct) (TICKET_NEW_COMMENT constants0) = Some (''100%'' @ [LF])
   \<and> strip (''100%'' @ [LF]) = ''100%''
   \<and> fst (push collab0 constants0 folder_pct) = Inl ValueError
   \<and> added_comments (snd (push collab0 constants0 folder_pct)) = []
   \<and> map_of (work_files (snd (push collab0 constants0 folder_pct))) (TICKET_NEW_COMMENT constants0)
       = Some []"
  by code_simp

section \<open>C10: the buffer is empty after \<^verbatim>\<open>push\<close>\<close>

text \<open>
  C10. When the pending-comment buffer file exists, with whatever content, and
  \<^verbatim>\<open>push()\<close> returns, the file is empty afterwards; and when the content is empty after
  stripping, no comment has been submitted for it.
\<close>

theorem push_clears_buffer:
  assumes "push cl c s = (Inr u, s')"
    and "map_of (work_files s) (TICKET_NEW_COMMENT c) = Some content"
  shows "map_of (work_files s') (TICKET_NEW_COMMENT c) = Some []
       \<and> (strip content = [] \<longrightarrow> added_comments s' = added_comments s)"
proof -
  from assms(1) obtain st s1 fm s2 fm' s3 comment s4 s5 s6 r7 s7 r8 s8 r9 s9 r10 s10 s11 r12 s12 r13 s13 r14
    where a1: "status cl c s = (Inr st, s1)"
    and a2: "get_remote_file_metadata s1 = (Inr fm, s2)"
    and a3: "fold_action (to_upload st) upload fm s2 = (Inr fm', s3)"
    and a4: "get_new_comment c True s3 = (Inr comment, s4)"
    and a5: "(if comment \<noteq> []
           then bind (log (''Adding comment \"'' @ comment @ ''\"'') None INFO) (\<lambda>_.
                add_comment comment)
           else return ()) s4 = (Inr (), s5)"
    and a6: "(if fold (\<lambda>(field, diff_values). AList.update field (snd diff_values))
                     (local_differs st) [] \<noteq> []
           then bind (log ''Updating fields \"%s\"'' (Some [ObjArg]) INFO) (\<lambda>_.
                issue_update (fold (\<lambda>(field, diff_values). AList.update field (snd diff_values))
                     (local_differs st) []))
           else return ()) s5 = (Inr (), s6)"
    and g7: "run_git_command [''add'', ''-A''] True False s6 = (Inr r7, s7)"
    and g8: "run_git_command [''commit'', ''-m'', ''Pushed local changes''] True False s7 = (Inr r8, s8)"
    and g9: "run_git_command [''fetch''] False True s8 = (Inr r9, s9)"
    and g10: "run_git_command [''merge'', ''master''] False False s9 = (Inr r10, s10)"
    and m11: "set_remote_file_metadata fm' s10 = (Inr (), s11)"
    and g12: "run_git_command [''add'', ''-A''] False True s11 = (Inr r12, s12)"
    and g13: "run_git_command [''commit'', ''-m'', ''Pulled remote changes''] True True s12 = (Inr r13, s13)"
    and g14: "run_git_command [''push'', ''origin'', ''jira''] False True s13 = (Inr r14, s')"
    unfolding push_def bind_Inr return_def by auto
  have s2: "s2 = s1"
    using a2 by (auto simp: get_remote_file_metadata_def split: option.splits decoded.splits)
  have w3: "work_files s3 = work_files s"
    using keepsD [OF quiet_status(2) a1]
      keepsD [OF keeps_fold_action a3, OF quiet_upload_files]
    by (simp add: s2)
  have c3: "added_comments s3 = added_comments s"
    using keepsD [OF quiet_status(1) a1]
      keepsD [OF keeps_fold_action a3, OF quiet_upload_comments]
    by (simp add: s2)
  have comment: "comment = strip content"
    and w4: "work_files s4 = AList.update (TICKET_NEW_COMMENT c) [] (work_files s)"
    using a4 assms(2) by (auto simp: get_new_comment_def w3)
  have c4: "added_comments s4 = added_comments s"
    using keepsD [OF quiet_get_new_comment(1) a4] c3 by simp
  have tail_files: "work_files s' = work_files s4"
    using keepsD [OF quiet_comment_step a5] keepsD [OF quiet_update_step(2) a6]
      keepsD [OF keeps_run_git_command(1) g7] keepsD [OF keeps_run_git_command(1) g8]
      keepsD [OF keeps_run_git_command(1) g9] keepsD [OF keeps_run_git_command(1) g10]
      keepsD [OF quiet_set_remote_file_metadata(2) m11]
      keepsD [OF keeps_run_git_command(1) g12] keepsD [OF keeps_run_git_command(1) g13]
      keepsD [OF keeps_run_git_command(1) g14]
    by simp
  have tail_comments: "added_comments s' = added_comments s5"
    using keepsD [OF quiet_update_step(1) a6]
      keepsD [OF quiet_run_git_command g7] keepsD [OF quiet_run_git_command g8]
      keepsD [OF quiet_run_git_command g9] keepsD [OF quiet_run_git_command g10]
      keepsD [OF quiet_set_remote_file_metadata(1) m11]
      keepsD [OF quiet_run_git_command g12] keepsD [OF quiet_run_git_command g13]
      keepsD [OF quiet_run_git_command g14]
    by simp
  have "map_of (work_files s') (TICKET_NEW_COMMENT c) = Some []"
    by (simp add: tail_files w4 update_conv')
  moreover have "strip content = [] \<longrightarrow> added_comments s' = added_comments s"
  proof
    assume "strip content = []"
    with a5 comment have "s5 = s4" by (simp add: return_def)
    with tail_comments c4 show "added_comments s' = added_comments s" by simp
  qed
  ultimately show ?thesis by blast
qed

text \<open>The witness: the buffer of \<^const>\<open>folder_blank\<close> holds a space and a newline.\<close>

theorem push_clears_buffer_witness:
  "map_of (work_files folder_blank) (TICKET_NEW_COMMENT constants0) = Some ('' '' @ [LF])
   \<and> strip ('' '' @ [LF]) = []
   \<and> (\<exists>s'. push collab0 constants0 folder_blank = (Inr (), s')
          \<and> map_of (work_files s') (TICKET_NEW_COMMENT constants0) = Some []
          \<and> added_comments s' = [])"
proof -
  have b: "map_of (work_files folder_blank) (TICKET_NEW_COMMENT constants0)
      = Some ('' '' @ [LF])"
    by (simp add: folder_blank_def constants0_def)
  have e: "strip ('' '' @ [LF]) = []"
    by code_simp
  have a: "added_comments folder_blank = []"
    by (simp add: added_comments_def folder_blank_def folder0_def)
  obtain s' where p: "push collab0 constants0 folder_blank = (Inr (), s')"
    using push_blank_ok by (cases "push collab0 constants0 folder_blank") auto
  from push_clears_buffer [OF p b] b e a p show ?thesis
    by auto
qed

end
